theory Spec2Isabelle
  imports Main
begin

section \<open>The platform and the vendor library, as seen from login_example.cpp\<close>

text \<open>
  The program talks to three things it does not implement: the console, the Windows
  loader (\<open>LoadLibraryA\<close>, \<open>GetProcAddress\<close>, \<open>FreeLibrary\<close>, \<open>Sleep\<close>) and the
  entry points of the vendor module. Each interaction is an event of a trace, in program
  order, together with the value the platform gave back. What the platform gives back is
  a parameter of the model (\<open>env\<close>), so a statement about every \<open>env\<close> is a statement
  about every behaviour of the opaque library.

  A function pointer obtained from \<open>GetProcAddress\<close> is an address inside the module. Once
  \<open>FreeLibrary\<close> has dropped the last reference to the module, a call through the pointer
  is undefined: the process is killed where the loader has unmapped the module, and
  nothing is promised otherwise. Such a call ends the run with the outcome \<open>Undefined\<close>;
  nothing the program text says after it is part of the run.
\<close>

type_synonym hinstance = nat
  \<comment> \<open>a non-NULL module handle; NULL is \<open>None\<close> of \<open>hinstance option\<close>\<close>

datatype farproc = Proc hinstance string
  \<comment> \<open>the address \<open>GetProcAddress\<close> returns: the export of that name in that module\<close>

datatype arg = ArgHwnd "nat option" | ArgDword nat | ArgChar char | ArgStr string | ArgInt int

datatype prompt = PromptServer | PromptPort | PromptUserID | PromptPassword | PromptCertPassword
  \<comment> \<open>the five prompt texts passed to \<open>GetInput\<close> in \<open>main\<close>, lines 265 to 271\<close>

datatype msg =
    MsgRule | MsgTitle | MsgEnterInfo | MsgMissingRequired
  | MsgCheckingConnection | MsgConnected | MsgNotConnected
  | MsgWaiting | MsgLoggingOut | MsgNewlineRule | MsgProgramEnd
  | MsgPrompt prompt | MsgDefault string | MsgColon
  | MsgDllLoadFailed string | MsgHintHeader | MsgHintSystem32 | MsgHintSameDir
  | MsgDllLoaded string | MsgResolveFailed | MsgResolved
  | MsgDllNotLoaded | MsgModuleLoaded | MsgModuleLoadFailed
  | MsgNoSetServer | MsgServerSet string | MsgServerFailed string
  | MsgNoSetPort | MsgPortSet int | MsgPortFailed int
  | MsgNoConnect | MsgLoginTrying | MsgLoginOk string | MsgLoginFailed
  | MsgNoDisconnect | MsgLogoutOk | MsgLogoutFailed
  | MsgNoFree | MsgModuleFreed | MsgModuleFreeFailed
  \<comment> \<open>one constructor for each \<open>printf\<close> format of the source, with its arguments\<close>

datatype event =
    Setlocale
  | Print msg
  | LoadLibraryA string "hinstance option"
  | GetProcAddress hinstance string "farproc option"
  | FreeLibrary hinstance
  | Call farproc "arg list" bool
  | Stale_call farproc "arg list"
  | Sleep nat
  | Return int
  \<comment> \<open>\<open>Call\<close>: an entry point invoked in a mapped module, and the BOOL it returned;
      \<open>Stale_call\<close>: a call through a pointer into a module that is no longer mapped;
      \<open>Return\<close>: \<open>main\<close> executes \<open>return\<close> with this value (the destructor of \<open>client\<close>,
      if it has been constructed, runs next)\<close>

record env =
  library :: "string \<Rightarrow> hinstance option"
    \<comment> \<open>what \<open>LoadLibraryA\<close> returns for a path\<close>
  exports :: "hinstance \<Rightarrow> string \<Rightarrow> bool"
    \<comment> \<open>whether the module exports the name\<close>
  answer :: "farproc \<Rightarrow> nat \<Rightarrow> arg list \<Rightarrow> bool"
    \<comment> \<open>the BOOL an entry point returns at its n-th invocation (from 0) on these arguments\<close>

record world =
  stdin :: "string list"
    \<comment> \<open>the lines still to be read from \<open>cin\<close>\<close>
  trace :: "event list"

definition emit :: "event \<Rightarrow> world \<Rightarrow> world" where
  "emit e w = w\<lparr>trace := trace w @ [e]\<rparr>"

definition printf :: "msg \<Rightarrow> world \<Rightarrow> world" where
  "printf m w = emit (Print m) w"

fun is_call_of :: "farproc \<Rightarrow> event \<Rightarrow> bool" where
  "is_call_of p (Call q args r) = (q = p)"
| "is_call_of p e = False"

definition ncalls :: "farproc \<Rightarrow> event list \<Rightarrow> nat" where
  "ncalls p tr = length (filter (is_call_of p) tr)"

fun reference :: "hinstance \<Rightarrow> nat \<Rightarrow> event \<Rightarrow> nat" where
  "reference h n (LoadLibraryA path (Some h')) = (if h' = h then Suc n else n)"
| "reference h n (FreeLibrary h') = (if h' = h then n - 1 else n)"
| "reference h n e = n"
  \<comment> \<open>the loader's reference count of module \<open>h\<close> after one more event\<close>

definition references :: "hinstance \<Rightarrow> event list \<Rightarrow> nat" where
  "references h tr = foldl (reference h) 0 tr"

fun mapped :: "farproc \<Rightarrow> event list \<Rightarrow> bool" where
  "mapped (Proc h name) tr = (0 < references h tr)"
  \<comment> \<open>the module the pointer points into is still loaded\<close>

definition invoke :: "env \<Rightarrow> farproc \<Rightarrow> arg list \<Rightarrow> world \<Rightarrow> bool option \<times> world" where
  "invoke E p args w =
     (if mapped p (trace w)
      then (let r = answer E p (ncalls p (trace w)) args
            in (Some r, emit (Call p args r) w))
      else (None, emit (Stale_call p args) w))"
  \<comment> \<open>a call through a function pointer: \<open>Some\<close> the BOOL returned, or \<open>None\<close> when the call
      is undefined\<close>

definition proc_address :: "env \<Rightarrow> hinstance \<Rightarrow> string \<Rightarrow> farproc option" where
  "proc_address E h name = (if exports E h name then Some (Proc h name) else None)"
  \<comment> \<open>the address of an export, NULL when the module has none of that name\<close>

definition GetProcAddress_call :: "env \<Rightarrow> hinstance \<Rightarrow> string \<Rightarrow> world \<Rightarrow> farproc option \<times> world" where
  "GetProcAddress_call E h name w =
     (let p = proc_address E h name
      in (p, emit (GetProcAddress h name p) w))"

definition getline :: "world \<Rightarrow> string \<times> world" where
  "getline w = (case stdin w of [] \<Rightarrow> ([], w) | l # ls \<Rightarrow> (l, w\<lparr>stdin := ls\<rparr>))"
  \<comment> \<open>at end of input \<open>std::getline\<close> leaves the freshly constructed string empty\<close>

definition c_str :: "string \<Rightarrow> string" where
  "c_str s = takeWhile (\<lambda>c. c \<noteq> CHR 0x00) s"
  \<comment> \<open>what a \<open>const char*\<close> reader sees of a \<open>std::string\<close>: the bytes before the first NUL\<close>

section \<open>std::stoi\<close>

datatype exception = Invalid_argument | Out_of_range

definition isspace :: "char \<Rightarrow> bool" where
  "isspace c = (c \<in> set [CHR 0x20, CHR 0x09, CHR 0x0A, CHR 0x0B, CHR 0x0C, CHR 0x0D])"
  \<comment> \<open>the white space \<open>strtol\<close> skips, as the "C" locale has it\<close>

definition isdigit :: "char \<Rightarrow> bool" where
  "isdigit c = (c \<in> set ''0123456789'')"

definition digits_value :: "string \<Rightarrow> int" where
  "digits_value ds = foldl (\<lambda>a c. 10 * a + (of_char c - 48)) 0 ds"

text \<open>
  \<open>std::stoi\<close> in base 10: leading white space, an optional sign, then the longest run of
  digits; what follows the digits is ignored. It throws \<open>invalid_argument\<close> when there is
  no digit and \<open>out_of_range\<close> when the value does not fit a 32-bit \<open>int\<close>.
\<close>

definition stoi :: "string \<Rightarrow> exception + int" where
  "stoi str =
     (let s = dropWhile isspace (c_str str);
          neg = (case s of [] \<Rightarrow> False | c # _ \<Rightarrow> c = CHR ''-'');
          s = (case s of [] \<Rightarrow> [] | c # cs \<Rightarrow> if c = CHR ''-'' \<or> c = CHR ''+'' then cs else s);
          ds = takeWhile isdigit s;
          v = (if neg then - digits_value ds else digits_value ds)
      in if ds = [] then Inl Invalid_argument
         else if v < - (2 ^ 31) \<or> 2 ^ 31 - 1 < v then Inl Out_of_range
         else Inr v)"

section \<open>class WMCAClient\<close>

record WMCAClient =
  m_hDll :: "hinstance option"
  m_pLoad :: "farproc option"
  m_pFree :: "farproc option"
  m_pSetServer :: "farproc option"
  m_pSetPort :: "farproc option"
  m_pIsConnected :: "farproc option"
  m_pConnect :: "farproc option"
  m_pDisconnect :: "farproc option"
  m_bConnected :: bool

definition WMCAClient_new :: WMCAClient where
  "WMCAClient_new =
     \<lparr>m_hDll = None, m_pLoad = None, m_pFree = None, m_pSetServer = None, m_pSetPort = None,
      m_pIsConnected = None, m_pConnect = None, m_pDisconnect = None, m_bConnected = False\<rparr>"

definition LoadDLL :: "env \<Rightarrow> string \<Rightarrow> WMCAClient \<Rightarrow> world \<Rightarrow> bool \<times> WMCAClient \<times> world" where
  "LoadDLL E szDLLPath c w =
     (let c = c\<lparr>m_hDll := library E szDLLPath\<rparr>;
          w = emit (LoadLibraryA szDLLPath (m_hDll c)) w
      in case m_hDll c of
           None \<Rightarrow>
             (False, c,
              printf MsgHintSameDir (printf MsgHintSystem32 (printf MsgHintHeader
                (printf (MsgDllLoadFailed szDLLPath) w))))
         | Some h \<Rightarrow>
             (let w = printf (MsgDllLoaded szDLLPath) w;
                  (pLoad, w) = GetProcAddress_call E h ''wmcaLoad'' w;
                  (pFree, w) = GetProcAddress_call E h ''wmcaFree'' w;
                  (pSetServer, w) = GetProcAddress_call E h ''wmcaSetServer'' w;
                  (pSetPort, w) = GetProcAddress_call E h ''wmcaSetPort'' w;
                  (pIsConnected, w) = GetProcAddress_call E h ''wmcaIsConnected'' w;
                  (pConnect, w) = GetProcAddress_call E h ''wmcaConnect'' w;
                  (pDisconnect, w) = GetProcAddress_call E h ''wmcaDisconnect'' w;
                  c = c\<lparr>m_pLoad := pLoad, m_pFree := pFree, m_pSetServer := pSetServer,
                        m_pSetPort := pSetPort, m_pIsConnected := pIsConnected,
                        m_pConnect := pConnect, m_pDisconnect := pDisconnect\<rparr>
              in if m_pLoad c = None \<or> m_pFree c = None \<or> m_pSetServer c = None \<or>
                    m_pSetPort c = None \<or> m_pIsConnected c = None \<or> m_pConnect c = None \<or>
                    m_pDisconnect c = None
                 then (False, c\<lparr>m_hDll := None\<rparr>, emit (FreeLibrary h) (printf MsgResolveFailed w))
                 else (True, c, printf MsgResolved w)))"

text \<open>
  A member function that calls into the vendor module returns \<open>None\<close> in place of its
  value when that call is undefined; its caller stops there too.
\<close>

definition Load :: "env \<Rightarrow> WMCAClient \<Rightarrow> world \<Rightarrow> bool option \<times> world" where
  "Load E c w =
     (case m_pLoad c of
        None \<Rightarrow> (Some False, printf MsgDllNotLoaded w)
      | Some p \<Rightarrow>
          (case invoke E p [] w of
             (None, w) \<Rightarrow> (None, w)
           | (Some r, w) \<Rightarrow>
               if r then (Some True, printf MsgModuleLoaded w)
               else (Some False, printf MsgModuleLoadFailed w)))"

definition SetServer :: "env \<Rightarrow> string \<Rightarrow> WMCAClient \<Rightarrow> world \<Rightarrow> bool option \<times> world" where
  "SetServer E szServer c w =
     (case m_pSetServer c of
        None \<Rightarrow> (Some False, printf MsgNoSetServer w)
      | Some p \<Rightarrow>
          (case invoke E p [ArgStr szServer] w of
             (None, w) \<Rightarrow> (None, w)
           | (Some r, w) \<Rightarrow>
               if r then (Some True, printf (MsgServerSet szServer) w)
               else (Some False, printf (MsgServerFailed szServer) w)))"

definition SetPort :: "env \<Rightarrow> int \<Rightarrow> WMCAClient \<Rightarrow> world \<Rightarrow> bool option \<times> world" where
  "SetPort E nPort c w =
     (case m_pSetPort c of
        None \<Rightarrow> (Some False, printf MsgNoSetPort w)
      | Some p \<Rightarrow>
          (case invoke E p [ArgInt nPort] w of
             (None, w) \<Rightarrow> (None, w)
           | (Some r, w) \<Rightarrow>
               if r then (Some True, printf (MsgPortSet nPort) w)
               else (Some False, printf (MsgPortFailed nPort) w)))"

definition IsConnected :: "env \<Rightarrow> WMCAClient \<Rightarrow> world \<Rightarrow> bool option \<times> world" where
  "IsConnected E c w =
     (case m_pIsConnected c of
        None \<Rightarrow> (Some False, w)
      | Some p \<Rightarrow> invoke E p [] w)"

definition Connect ::
  "env \<Rightarrow> string \<Rightarrow> string \<Rightarrow> string \<Rightarrow> char \<Rightarrow> char \<Rightarrow> WMCAClient \<Rightarrow> world \<Rightarrow>
   bool option \<times> WMCAClient \<times> world" where
  "Connect E szID szPassword szCertPW cMediaType cUserType c w =
     (case m_pConnect c of
        None \<Rightarrow> (Some False, c, printf MsgNoConnect w)
      | Some p \<Rightarrow>
          (case invoke E p
                  [ArgHwnd None, ArgDword 0, ArgChar cMediaType, ArgChar cUserType,
                   ArgStr szID, ArgStr szPassword, ArgStr szCertPW]
                  (printf MsgLoginTrying w) of
             (None, w) \<Rightarrow> (None, c, w)
           | (Some r, w) \<Rightarrow>
               if r then (Some True, c\<lparr>m_bConnected := True\<rparr>, printf (MsgLoginOk szID) w)
               else (Some False, c, printf MsgLoginFailed w)))"
  \<comment> \<open>\<open>cMediaType\<close> and \<open>cUserType\<close> are \<open>szMediaType[0]\<close> and \<open>szUserType[0]\<close> of the
      default arguments "0" and "1", the only ones \<open>main\<close> uses\<close>

definition Disconnect :: "env \<Rightarrow> WMCAClient \<Rightarrow> world \<Rightarrow> bool option \<times> WMCAClient \<times> world" where
  "Disconnect E c w =
     (case m_pDisconnect c of
        None \<Rightarrow> (Some False, c, printf MsgNoDisconnect w)
      | Some p \<Rightarrow>
          (case invoke E p [] w of
             (None, w) \<Rightarrow> (None, c, w)
           | (Some r, w) \<Rightarrow>
               if r then (Some True, c\<lparr>m_bConnected := False\<rparr>, printf MsgLogoutOk w)
               else (Some False, c, printf MsgLogoutFailed w)))"

definition Free :: "env \<Rightarrow> WMCAClient \<Rightarrow> world \<Rightarrow> bool option \<times> world" where
  "Free E c w =
     (case m_pFree c of
        None \<Rightarrow> (Some False, printf MsgNoFree w)
      | Some p \<Rightarrow>
          (case invoke E p [] w of
             (None, w) \<Rightarrow> (None, w)
           | (Some r, w) \<Rightarrow>
               if r then (Some True, printf MsgModuleFreed w)
               else (Some False, printf MsgModuleFreeFailed w)))"

definition Cleanup :: "env \<Rightarrow> WMCAClient \<Rightarrow> world \<Rightarrow> unit option \<times> WMCAClient \<times> world" where
  "Cleanup E c w =
     (let (stopped, c, w) =
            (if m_bConnected c
             then (let (r, c, w) = Disconnect E c w in (r = None, c, w))
             else (False, c, w))
      in if stopped then (None, c, w)
         else
           (case Free E c w of
              (None, w) \<Rightarrow> (None, c, w)
            | (Some r, w) \<Rightarrow>
                (case m_hDll c of
                   Some h \<Rightarrow> (Some (), c\<lparr>m_hDll := None\<rparr>, emit (FreeLibrary h) w)
                 | None \<Rightarrow> (Some (), c, w))))"
  \<comment> \<open>\<open>Some ()\<close> when \<open>Cleanup\<close> returns, \<open>None\<close> when one of its calls is undefined\<close>

section \<open>GetInput and main\<close>

definition GetInput :: "prompt \<Rightarrow> string option \<Rightarrow> world \<Rightarrow> string \<times> world" where
  "GetInput szPrompt szDefault w =
     (let w = printf (MsgPrompt szPrompt) w;
          w = (case szDefault of Some d \<Rightarrow> printf (MsgDefault d) w | None \<Rightarrow> printf MsgColon w);
          (input, w) = getline w
      in case szDefault of
           Some d \<Rightarrow> if input = [] then (d, w) else (input, w)
         | None \<Rightarrow> (input, w))"

datatype outcome = Exit int | Uncaught exception | Undefined
  \<comment> \<open>the process exits with the value \<open>main\<close> returned, or an exception leaves \<open>main\<close> and
      the process is terminated, or the run has made a call that is undefined\<close>

definition return_destroying :: "env \<Rightarrow> int \<Rightarrow> WMCAClient \<Rightarrow> world \<Rightarrow> outcome \<times> world" where
  "return_destroying E code c w =
     (case Cleanup E c (emit (Return code) w) of
        (None, c, w) \<Rightarrow> (Undefined, w)
      | (Some u, c, w) \<Rightarrow> (Exit code, w))"
  \<comment> \<open>a \<open>return\<close> in the scope of \<open>client\<close>: the destructor \<open>~WMCAClient\<close> runs \<open>Cleanup\<close>\<close>

definition main :: "env \<Rightarrow> world \<Rightarrow> outcome \<times> world" where
  "main E w =
     (let w = emit Setlocale w;
          w = printf MsgRule w;
          w = printf MsgTitle w;
          w = printf MsgRule w;
          w = printf MsgEnterInfo w;
          (server, w) = GetInput PromptServer (Some ''127.0.0.1'') w;
          (portStr, w) = GetInput PromptPort (Some ''9000'') w
      in case stoi portStr of
           Inl ex \<Rightarrow> (Uncaught ex, w)
         | Inr port \<Rightarrow>
      (let (userID, w) = GetInput PromptUserID None w;
           (password, w) = GetInput PromptPassword None w;
           (certPassword, w) = GetInput PromptCertPassword None w
       in if userID = [] \<or> password = [] \<or> certPassword = []
          then (Exit 1, emit (Return 1) (printf MsgMissingRequired w))
          else
      (let client = WMCAClient_new;
           (ok, client, w) = LoadDLL E ''wmca.dll'' client w
       in if \<not> ok then return_destroying E 1 client w else
      (case Load E client w of
         (None, w) \<Rightarrow> (Undefined, w)
       | (Some ok, w) \<Rightarrow>
          if \<not> ok then return_destroying E 1 client w else
      (case SetServer E (c_str server) client w of
         (None, w) \<Rightarrow> (Undefined, w)
       | (Some ok, w) \<Rightarrow>
          if \<not> ok
          then (case Free E client w of
                  (None, w) \<Rightarrow> (Undefined, w)
                | (Some r, w) \<Rightarrow> return_destroying E 1 client w)
          else
      (case SetPort E port client w of
         (None, w) \<Rightarrow> (Undefined, w)
       | (Some ok, w) \<Rightarrow>
          if \<not> ok
          then (case Free E client w of
                  (None, w) \<Rightarrow> (Undefined, w)
                | (Some r, w) \<Rightarrow> return_destroying E 1 client w)
          else
      (case Connect E (c_str userID) (c_str password) (c_str certPassword) CHR ''0'' CHR ''1''
              client w of
         (None, client, w) \<Rightarrow> (Undefined, w)
       | (Some ok, client, w) \<Rightarrow>
          if \<not> ok
          then (case Free E client w of
                  (None, w) \<Rightarrow> (Undefined, w)
                | (Some r, w) \<Rightarrow> return_destroying E 1 client w)
          else
      (case IsConnected E client (printf MsgCheckingConnection w) of
         (None, w) \<Rightarrow> (Undefined, w)
       | (Some connected, w) \<Rightarrow>
      (let w = (if connected then printf MsgConnected w else printf MsgNotConnected w);
           w = printf MsgWaiting w;
           w = emit (Sleep 5000) w;
           w = printf MsgLoggingOut w
       in case Disconnect E client w of
            (None, client, w) \<Rightarrow> (Undefined, w)
          | (Some r, client, w) \<Rightarrow>
      (case Cleanup E client w of
         (None, client, w) \<Rightarrow> (Undefined, w)
       | (Some u, client, w) \<Rightarrow>
      (let w = printf MsgNewlineRule w;
           w = printf MsgProgramEnd w;
           w = printf MsgRule w
       in return_destroying E 0 client w)))))))))))"

definition run :: "env \<Rightarrow> string list \<Rightarrow> outcome \<times> world" where
  "run E lines = main E \<lparr>stdin = lines, trace = []\<rparr>"
  \<comment> \<open>one execution of the program: the console input given, nothing has happened yet\<close>

section \<open>Notions used to state the properties\<close>

subsection \<open>The console input of a run\<close>

definition readln :: "string list \<Rightarrow> string" where
  "readln ls = (case ls of [] \<Rightarrow> [] | l # _ \<Rightarrow> l)"
  \<comment> \<open>the next line of the input, empty at its end\<close>

definition entered :: "string option \<Rightarrow> string \<Rightarrow> string" where
  "entered d l = (case d of Some x \<Rightarrow> if l = [] then x else l | None \<Rightarrow> l)"

definition server_of :: "string list \<Rightarrow> string" where
  "server_of lines = entered (Some ''127.0.0.1'') (readln lines)"

definition portStr_of :: "string list \<Rightarrow> string" where
  "portStr_of lines = entered (Some ''9000'') (readln (tl lines))"

definition userID_of :: "string list \<Rightarrow> string" where
  "userID_of lines = readln (tl (tl lines))"

definition password_of :: "string list \<Rightarrow> string" where
  "password_of lines = readln (tl (tl (tl lines)))"

definition certPassword_of :: "string list \<Rightarrow> string" where
  "certPassword_of lines = readln (tl (tl (tl (tl lines))))"

subsection \<open>What the platform answers in a run\<close>

definition resolved_all :: "env \<Rightarrow> hinstance \<Rightarrow> bool" where
  "resolved_all E h =
     (exports E h ''wmcaLoad'' \<and> exports E h ''wmcaFree'' \<and> exports E h ''wmcaSetServer'' \<and>
      exports E h ''wmcaSetPort'' \<and> exports E h ''wmcaIsConnected'' \<and>
      exports E h ''wmcaConnect'' \<and> exports E h ''wmcaDisconnect'')"

definition Connect_args :: "string \<Rightarrow> string \<Rightarrow> string \<Rightarrow> char \<Rightarrow> char \<Rightarrow> arg list" where
  "Connect_args i pw cert m u =
     [ArgHwnd None, ArgDword 0, ArgChar m, ArgChar u, ArgStr i, ArgStr pw, ArgStr cert]"

definition login_args :: "string list \<Rightarrow> arg list" where
  "login_args lines =
     Connect_args (c_str (userID_of lines)) (c_str (password_of lines))
       (c_str (certPassword_of lines)) CHR ''0'' CHR ''1''"

definition Load_ok :: "env \<Rightarrow> hinstance \<Rightarrow> bool" where
  "Load_ok E h = answer E (Proc h ''wmcaLoad'') 0 []"

definition SetServer_ok :: "env \<Rightarrow> hinstance \<Rightarrow> string list \<Rightarrow> bool" where
  "SetServer_ok E h lines =
     answer E (Proc h ''wmcaSetServer'') 0 [ArgStr (c_str (server_of lines))]"

definition SetPort_ok :: "env \<Rightarrow> hinstance \<Rightarrow> int \<Rightarrow> bool" where
  "SetPort_ok E h port = answer E (Proc h ''wmcaSetPort'') 0 [ArgInt port]"

definition Connect_ok :: "env \<Rightarrow> hinstance \<Rightarrow> string list \<Rightarrow> bool" where
  "Connect_ok E h lines = answer E (Proc h ''wmcaConnect'') 0 (login_args lines)"

definition logs_in :: "env \<Rightarrow> string list \<Rightarrow> int \<Rightarrow> bool" where
  "logs_in E lines port =
     (userID_of lines \<noteq> [] \<and> password_of lines \<noteq> [] \<and> certPassword_of lines \<noteq> [] \<and>
      (case library E ''wmca.dll'' of
         None \<Rightarrow> False
       | Some h \<Rightarrow>
           resolved_all E h \<and> Load_ok E h \<and> SetServer_ok E h lines \<and> SetPort_ok E h port \<and>
           Connect_ok E h lines))"
  \<comment> \<open>the three required fields are filled, the library is found, its seven names resolve,
      and the first calls of \<open>wmcaLoad\<close>, \<open>wmcaSetServer\<close>, \<open>wmcaSetPort\<close> and \<open>wmcaConnect\<close>
      return TRUE\<close>

subsection \<open>The pieces of a trace\<close>

definition banner :: "event list" where
  "banner =
     [Setlocale, Print MsgRule, Print MsgTitle, Print MsgRule, Print MsgEnterInfo,
      Print (MsgPrompt PromptServer), Print (MsgDefault ''127.0.0.1''),
      Print (MsgPrompt PromptPort), Print (MsgDefault ''9000'')]"

definition credentials :: "event list" where
  "credentials =
     [Print (MsgPrompt PromptUserID), Print MsgColon,
      Print (MsgPrompt PromptPassword), Print MsgColon,
      Print (MsgPrompt PromptCertPassword), Print MsgColon]"

definition resolution :: "env \<Rightarrow> hinstance \<Rightarrow> event list" where
  "resolution E h =
     [GetProcAddress h ''wmcaLoad'' (proc_address E h ''wmcaLoad''),
      GetProcAddress h ''wmcaFree'' (proc_address E h ''wmcaFree''),
      GetProcAddress h ''wmcaSetServer'' (proc_address E h ''wmcaSetServer''),
      GetProcAddress h ''wmcaSetPort'' (proc_address E h ''wmcaSetPort''),
      GetProcAddress h ''wmcaIsConnected'' (proc_address E h ''wmcaIsConnected''),
      GetProcAddress h ''wmcaConnect'' (proc_address E h ''wmcaConnect''),
      GetProcAddress h ''wmcaDisconnect'' (proc_address E h ''wmcaDisconnect'')]"

definition loading :: "env \<Rightarrow> hinstance \<Rightarrow> event list" where
  "loading E h =
     banner @ credentials @
     [LoadLibraryA ''wmca.dll'' (Some h), Print (MsgDllLoaded ''wmca.dll'')] @ resolution E h"

definition calling :: "env \<Rightarrow> farproc \<Rightarrow> nat \<Rightarrow> arg list \<Rightarrow> msg \<Rightarrow> msg \<Rightarrow> event list" where
  "calling E p k args good bad =
     [Call p args (answer E p k args), Print (if answer E p k args then good else bad)]"
  \<comment> \<open>the k-th invocation of an entry point by its wrapper, and the wrapper's message\<close>

definition freeing :: "env \<Rightarrow> hinstance \<Rightarrow> nat \<Rightarrow> event list" where
  "freeing E h k = calling E (Proc h ''wmcaFree'') k [] MsgModuleFreed MsgModuleFreeFailed"

definition disconnecting :: "env \<Rightarrow> hinstance \<Rightarrow> nat \<Rightarrow> event list" where
  "disconnecting E h k =
     calling E (Proc h ''wmcaDisconnect'') k [] MsgLogoutOk MsgLogoutFailed"

definition configuring :: "env \<Rightarrow> hinstance \<Rightarrow> string list \<Rightarrow> int \<Rightarrow> nat \<Rightarrow> event list" where
  "configuring E h lines port n =
     concat (take n
       [[Print MsgResolved],
        calling E (Proc h ''wmcaLoad'') 0 [] MsgModuleLoaded MsgModuleLoadFailed,
        calling E (Proc h ''wmcaSetServer'') 0 [ArgStr (c_str (server_of lines))]
          (MsgServerSet (c_str (server_of lines))) (MsgServerFailed (c_str (server_of lines))),
        calling E (Proc h ''wmcaSetPort'') 0 [ArgInt port] (MsgPortSet port) (MsgPortFailed port),
        Print MsgLoginTrying #
        calling E (Proc h ''wmcaConnect'') 0 (login_args lines)
          (MsgLoginOk (c_str (userID_of lines))) MsgLoginFailed])"
  \<comment> \<open>the first n of the steps of \<open>main\<close> from the end of \<open>LoadDLL\<close> to \<open>Connect\<close>\<close>

definition session :: "env \<Rightarrow> hinstance \<Rightarrow> event list" where
  "session E h =
     [Print MsgCheckingConnection,
      Call (Proc h ''wmcaIsConnected'') [] (answer E (Proc h ''wmcaIsConnected'') 0 []),
      Print (if answer E (Proc h ''wmcaIsConnected'') 0 [] then MsgConnected else MsgNotConnected),
      Print MsgWaiting, Sleep 5000, Print MsgLoggingOut] @
     disconnecting E h 0 @
     (if answer E (Proc h ''wmcaDisconnect'') 0 [] then [] else disconnecting E h 1) @
     freeing E h 0 @
     [FreeLibrary h, Print MsgNewlineRule, Print MsgProgramEnd, Print MsgRule, Return 0,
      Stale_call
        (if answer E (Proc h ''wmcaDisconnect'') 0 [] \<or> answer E (Proc h ''wmcaDisconnect'') 1 []
         then Proc h ''wmcaFree'' else Proc h ''wmcaDisconnect'') []]"
  \<comment> \<open>lines 309 to 332 of \<open>main\<close>, followed by the destructor of \<open>client\<close> up to its
      first call, which is made after the \<open>FreeLibrary\<close> of line 225\<close>

definition final_world :: "string list \<Rightarrow> event list \<Rightarrow> world" where
  "final_world lines tr = \<lparr>stdin = tl (tl (tl (tl (tl lines)))), trace = tr\<rparr>"

subsection \<open>Projections of a trace\<close>

fun unloaded :: "event \<Rightarrow> hinstance list" where
  "unloaded (FreeLibrary h) = [h]"
| "unloaded e = []"

fun loaded :: "event \<Rightarrow> hinstance list" where
  "loaded (LoadLibraryA path (Some h)) = [h]"
| "loaded e = []"

fun native :: "event \<Rightarrow> string list" where
  "native (Call (Proc h name) args r) = [name]"
| "native (Stale_call (Proc h name) args) = [name]"
| "native (Sleep ms) = [''Sleep'']"
| "native (FreeLibrary h) = [''FreeLibrary'']"
| "native e = []"
  \<comment> \<open>the vendor entry point an event invokes, or the wait, or the library unload\<close>

fun slept :: "event \<Rightarrow> nat list" where
  "slept (Sleep ms) = [ms]"
| "slept e = []"

fun prompted :: "event \<Rightarrow> prompt list" where
  "prompted (Print (MsgPrompt p)) = [p]"
| "prompted e = []"

fun is_resolution :: "event \<Rightarrow> bool" where
  "is_resolution (GetProcAddress h name p) = True"
| "is_resolution e = False"

fun is_vendor_call :: "event \<Rightarrow> bool" where
  "is_vendor_call (Call p args r) = True"
| "is_vendor_call (Stale_call p args) = True"
| "is_vendor_call e = False"

fun returned :: "event \<Rightarrow> int list" where
  "returned (Return code) = [code]"
| "returned e = []"

fun stale :: "event \<Rightarrow> farproc list" where
  "stale (Stale_call p args) = [p]"
| "stale e = []"

fun loads_from :: "event \<Rightarrow> string list" where
  "loads_from (LoadLibraryA path h) = [path]"
| "loads_from e = []"

definition unloads :: "event list \<Rightarrow> hinstance list" where
  "unloads tr = concat (map unloaded tr)"
  \<comment> \<open>the handles passed to \<open>FreeLibrary\<close>, in order\<close>

definition loads :: "event list \<Rightarrow> hinstance list" where
  "loads tr = concat (map loaded tr)"
  \<comment> \<open>the handles \<open>LoadLibraryA\<close> returned, in order\<close>

definition natives :: "event list \<Rightarrow> string list" where
  "natives tr = concat (map native tr)"

definition sleeps :: "event list \<Rightarrow> nat list" where
  "sleeps tr = concat (map slept tr)"

definition prompts :: "event list \<Rightarrow> prompt list" where
  "prompts tr = concat (map prompted tr)"

definition returns :: "event list \<Rightarrow> int list" where
  "returns tr = concat (map returned tr)"
  \<comment> \<open>the values of the \<open>return\<close> statements \<open>main\<close> has executed\<close>

definition stale_calls :: "event list \<Rightarrow> farproc list" where
  "stale_calls tr = concat (map stale tr)"

subsection \<open>A caller of the class\<close>

datatype member_call =
    DoLoad | DoSetServer string | DoSetPort int | DoIsConnected
  | DoConnect string string string char char | DoDisconnect | DoFree | DoCleanup

fun perform :: "env \<Rightarrow> bool \<times> WMCAClient \<times> world \<Rightarrow> member_call \<Rightarrow> bool \<times> WMCAClient \<times> world" where
  "perform E (False, c, w) call = (False, c, w)"
| "perform E (True, c, w) DoLoad = (let (r, w) = Load E c w in (r \<noteq> None, c, w))"
| "perform E (True, c, w) (DoSetServer s) = (let (r, w) = SetServer E s c w in (r \<noteq> None, c, w))"
| "perform E (True, c, w) (DoSetPort n) = (let (r, w) = SetPort E n c w in (r \<noteq> None, c, w))"
| "perform E (True, c, w) DoIsConnected = (let (r, w) = IsConnected E c w in (r \<noteq> None, c, w))"
| "perform E (True, c, w) (DoConnect i pw cert m u) =
     (let (r, c, w) = Connect E i pw cert m u c w in (r \<noteq> None, c, w))"
| "perform E (True, c, w) DoDisconnect = (let (r, c, w) = Disconnect E c w in (r \<noteq> None, c, w))"
| "perform E (True, c, w) DoFree = (let (r, w) = Free E c w in (r \<noteq> None, c, w))"
| "perform E (True, c, w) DoCleanup = (let (r, c, w) = Cleanup E c w in (r \<noteq> None, c, w))"
  \<comment> \<open>one call of a public member function other than \<open>LoadDLL\<close>, its return value dropped.
      The flag says that the run is still defined; once a call has been undefined no
      further call is made\<close>

fun null_branch :: "member_call \<Rightarrow> WMCAClient \<Rightarrow> bool" where
  "null_branch DoLoad c = (m_pLoad c = None)"
| "null_branch (DoSetServer s) c = (m_pSetServer c = None)"
| "null_branch (DoSetPort n) c = (m_pSetPort c = None)"
| "null_branch DoIsConnected c = (m_pIsConnected c = None)"
| "null_branch (DoConnect i pw cert m u) c = (m_pConnect c = None)"
| "null_branch DoDisconnect c = (m_pDisconnect c = None)"
| "null_branch DoFree c = (m_pFree c = None)"
| "null_branch DoCleanup c = ((m_bConnected c \<and> m_pDisconnect c = None) \<or> m_pFree c = None)"
  \<comment> \<open>whether the call takes the branch guarded by a NULL function pointer (in \<open>Cleanup\<close>:
      whether one of the wrappers it calls does)\<close>

definition release :: "env \<Rightarrow> WMCAClient \<Rightarrow> world \<Rightarrow> unit option \<times> WMCAClient \<times> world" where
  "release E c w =
     (case Free E c w of
        (None, w) \<Rightarrow> (None, c, w)
      | (Some r, w) \<Rightarrow>
          (case m_hDll c of
             Some h \<Rightarrow> (Some (), c\<lparr>m_hDll := None\<rparr>, emit (FreeLibrary h) w)
           | None \<Rightarrow> (Some (), c, w)))"
  \<comment> \<open>lines 223 to 227: what \<open>Cleanup\<close> does after its test of \<open>m_bConnected\<close>\<close>

definition pointers :: "WMCAClient \<Rightarrow> farproc option list" where
  "pointers c =
     [m_pLoad c, m_pFree c, m_pSetServer c, m_pSetPort c, m_pIsConnected c, m_pConnect c,
      m_pDisconnect c]"
  \<comment> \<open>the seven function-pointer slots\<close>

subsection \<open>Concrete platforms and a concrete input\<close>

definition vendor :: "string list \<Rightarrow> string list \<Rightarrow> env" where
  "vendor missing failing =
     \<lparr>library = (\<lambda>path. if path = ''wmca.dll'' then Some 1 else None),
      exports = (\<lambda>h name. name \<notin> set missing),
      answer = (\<lambda>p k args. case p of Proc h name \<Rightarrow> name \<notin> set failing)\<rparr>"
  \<comment> \<open>a module at handle 1 that lacks the exports \<open>missing\<close> and whose entry points
      \<open>failing\<close> return FALSE, the others TRUE\<close>

definition no_vendor :: env where
  "no_vendor =
     \<lparr>library = (\<lambda>path. None), exports = (\<lambda>h name. False), answer = (\<lambda>p k args. False)\<rparr>"
  \<comment> \<open>no module can be loaded\<close>

definition typical_input :: "string list" where
  "typical_input = [[], [], ''user'', ''secret'', ''cert'']"
  \<comment> \<open>both defaults accepted, then the three credentials\<close>

section \<open>The member functions and the paths of main, as equations\<close>

lemma getline_eq: "getline w = (readln (stdin w), w\<lparr>stdin := tl (stdin w)\<rparr>)"
  by (cases w) (simp add: getline_def readln_def split: list.splits)

lemma GetInput_eq:
  "GetInput p d w =
     (entered d (readln (stdin w)),
      w\<lparr>stdin := tl (stdin w),
        trace := trace w @ [Print (MsgPrompt p), Print (case d of Some x \<Rightarrow> MsgDefault x | None \<Rightarrow> MsgColon)]\<rparr>)"
  by (cases d) (simp_all add: GetInput_def getline_eq entered_def printf_def emit_def)

lemma LoadDLL_absent:
  "library E path = None \<Longrightarrow>
   LoadDLL E path c w =
     (False, c\<lparr>m_hDll := None\<rparr>,
      w\<lparr>trace := trace w @ [LoadLibraryA path None, Print (MsgDllLoadFailed path),
         Print MsgHintHeader, Print MsgHintSystem32, Print MsgHintSameDir]\<rparr>)"
  by (simp add: LoadDLL_def Let_def printf_def emit_def)

lemma LoadDLL_unresolved:
  "library E path = Some h \<Longrightarrow> \<not> resolved_all E h \<Longrightarrow>
   LoadDLL E path c w =
     (False,
      c\<lparr>m_hDll := None,
        m_pLoad := proc_address E h ''wmcaLoad'', m_pFree := proc_address E h ''wmcaFree'',
        m_pSetServer := proc_address E h ''wmcaSetServer'',
        m_pSetPort := proc_address E h ''wmcaSetPort'',
        m_pIsConnected := proc_address E h ''wmcaIsConnected'',
        m_pConnect := proc_address E h ''wmcaConnect'',
        m_pDisconnect := proc_address E h ''wmcaDisconnect''\<rparr>,
      w\<lparr>trace := trace w @ [LoadLibraryA path (Some h), Print (MsgDllLoaded path)] @
          resolution E h @ [Print MsgResolveFailed, FreeLibrary h]\<rparr>)"
  unfolding resolved_all_def LoadDLL_def GetProcAddress_call_def resolution_def
  by (simp add: Let_def printf_def emit_def) (auto simp: proc_address_def)

lemma LoadDLL_resolved:
  "library E path = Some h \<Longrightarrow> resolved_all E h \<Longrightarrow>
   LoadDLL E path c w =
     (True,
      c\<lparr>m_hDll := Some h,
        m_pLoad := Some (Proc h ''wmcaLoad''), m_pFree := Some (Proc h ''wmcaFree''),
        m_pSetServer := Some (Proc h ''wmcaSetServer''),
        m_pSetPort := Some (Proc h ''wmcaSetPort''),
        m_pIsConnected := Some (Proc h ''wmcaIsConnected''),
        m_pConnect := Some (Proc h ''wmcaConnect''),
        m_pDisconnect := Some (Proc h ''wmcaDisconnect'')\<rparr>,
      w\<lparr>trace := trace w @ [LoadLibraryA path (Some h), Print (MsgDllLoaded path)] @
          resolution E h @ [Print MsgResolved]\<rparr>)"
  unfolding resolved_all_def LoadDLL_def GetProcAddress_call_def resolution_def
  by (simp add: Let_def printf_def emit_def proc_address_def)

lemma invoke_eq:
  "invoke E p args w =
     (if mapped p (trace w)
      then (Some (answer E p (ncalls p (trace w)) args),
            w\<lparr>trace := trace w @ [Call p args (answer E p (ncalls p (trace w)) args)]\<rparr>)
      else (None, w\<lparr>trace := trace w @ [Stale_call p args]\<rparr>))"
  by (simp add: invoke_def emit_def Let_def)

lemma Load_eq:
  "Load E c w =
     (case m_pLoad c of
        None \<Rightarrow> (Some False, w\<lparr>trace := trace w @ [Print MsgDllNotLoaded]\<rparr>)
      | Some p \<Rightarrow>
          if mapped p (trace w)
          then (Some (answer E p (ncalls p (trace w)) []),
                w\<lparr>trace := trace w @
                   [Call p [] (answer E p (ncalls p (trace w)) []),
                    Print (if answer E p (ncalls p (trace w)) [] then MsgModuleLoaded
                           else MsgModuleLoadFailed)]\<rparr>)
          else (None, w\<lparr>trace := trace w @ [Stale_call p []]\<rparr>))"
  by (simp add: Load_def invoke_eq printf_def emit_def split: option.splits)

lemma SetServer_eq:
  "SetServer E s c w =
     (case m_pSetServer c of
        None \<Rightarrow> (Some False, w\<lparr>trace := trace w @ [Print MsgNoSetServer]\<rparr>)
      | Some p \<Rightarrow>
          if mapped p (trace w)
          then (Some (answer E p (ncalls p (trace w)) [ArgStr s]),
                w\<lparr>trace := trace w @
                   [Call p [ArgStr s] (answer E p (ncalls p (trace w)) [ArgStr s]),
                    Print (if answer E p (ncalls p (trace w)) [ArgStr s] then MsgServerSet s
                           else MsgServerFailed s)]\<rparr>)
          else (None, w\<lparr>trace := trace w @ [Stale_call p [ArgStr s]]\<rparr>))"
  by (simp add: SetServer_def invoke_eq printf_def emit_def split: option.splits)

lemma SetPort_eq:
  "SetPort E n c w =
     (case m_pSetPort c of
        None \<Rightarrow> (Some False, w\<lparr>trace := trace w @ [Print MsgNoSetPort]\<rparr>)
      | Some p \<Rightarrow>
          if mapped p (trace w)
          then (Some (answer E p (ncalls p (trace w)) [ArgInt n]),
                w\<lparr>trace := trace w @
                   [Call p [ArgInt n] (answer E p (ncalls p (trace w)) [ArgInt n]),
                    Print (if answer E p (ncalls p (trace w)) [ArgInt n] then MsgPortSet n
                           else MsgPortFailed n)]\<rparr>)
          else (None, w\<lparr>trace := trace w @ [Stale_call p [ArgInt n]]\<rparr>))"
  by (simp add: SetPort_def invoke_eq printf_def emit_def split: option.splits)

lemma IsConnected_eq:
  "IsConnected E c w =
     (case m_pIsConnected c of
        None \<Rightarrow> (Some False, w)
      | Some p \<Rightarrow>
          if mapped p (trace w)
          then (Some (answer E p (ncalls p (trace w)) []),
                w\<lparr>trace := trace w @ [Call p [] (answer E p (ncalls p (trace w)) [])]\<rparr>)
          else (None, w\<lparr>trace := trace w @ [Stale_call p []]\<rparr>))"
  by (simp add: IsConnected_def invoke_eq split: option.splits)

lemma mapped_Print: "mapped p (tr @ [Print m]) = mapped p tr"
  by (cases p) (simp add: references_def)

lemma ncalls_Print: "ncalls p (tr @ [Print m]) = ncalls p tr"
  by (simp add: ncalls_def)

lemma Connect_eq:
  "Connect E i pw cert m u c w =
     (case m_pConnect c of
        None \<Rightarrow> (Some False, c, w\<lparr>trace := trace w @ [Print MsgNoConnect]\<rparr>)
      | Some p \<Rightarrow>
          if mapped p (trace w)
          then (Some (answer E p (ncalls p (trace w)) (Connect_args i pw cert m u)),
                c\<lparr>m_bConnected :=
                    answer E p (ncalls p (trace w)) (Connect_args i pw cert m u) \<or>
                    m_bConnected c\<rparr>,
                w\<lparr>trace := trace w @
                   [Print MsgLoginTrying,
                    Call p (Connect_args i pw cert m u)
                      (answer E p (ncalls p (trace w)) (Connect_args i pw cert m u)),
                    Print (if answer E p (ncalls p (trace w)) (Connect_args i pw cert m u)
                           then MsgLoginOk i else MsgLoginFailed)]\<rparr>)
          else (None, c,
                w\<lparr>trace := trace w @
                   [Print MsgLoginTrying, Stale_call p (Connect_args i pw cert m u)]\<rparr>))"
  by (simp add: Connect_def Connect_args_def invoke_eq printf_def emit_def mapped_Print
        ncalls_Print split: option.splits)

lemma Disconnect_eq:
  "Disconnect E c w =
     (case m_pDisconnect c of
        None \<Rightarrow> (Some False, c, w\<lparr>trace := trace w @ [Print MsgNoDisconnect]\<rparr>)
      | Some p \<Rightarrow>
          if mapped p (trace w)
          then (Some (answer E p (ncalls p (trace w)) []),
                c\<lparr>m_bConnected := \<not> answer E p (ncalls p (trace w)) [] \<and> m_bConnected c\<rparr>,
                w\<lparr>trace := trace w @
                   [Call p [] (answer E p (ncalls p (trace w)) []),
                    Print (if answer E p (ncalls p (trace w)) [] then MsgLogoutOk
                           else MsgLogoutFailed)]\<rparr>)
          else (None, c, w\<lparr>trace := trace w @ [Stale_call p []]\<rparr>))"
  by (simp add: Disconnect_def invoke_eq printf_def emit_def split: option.splits)

lemma Free_eq:
  "Free E c w =
     (case m_pFree c of
        None \<Rightarrow> (Some False, w\<lparr>trace := trace w @ [Print MsgNoFree]\<rparr>)
      | Some p \<Rightarrow>
          if mapped p (trace w)
          then (Some (answer E p (ncalls p (trace w)) []),
                w\<lparr>trace := trace w @
                   [Call p [] (answer E p (ncalls p (trace w)) []),
                    Print (if answer E p (ncalls p (trace w)) [] then MsgModuleFreed
                           else MsgModuleFreeFailed)]\<rparr>)
          else (None, w\<lparr>trace := trace w @ [Stale_call p []]\<rparr>))"
  by (simp add: Free_def invoke_eq printf_def emit_def split: option.splits)

lemma printf_if:
  "(if b then printf m w else printf m' w) = w\<lparr>trace := trace w @ [Print (if b then m else m')]\<rparr>"
  by (simp add: printf_def emit_def)

lemma entered_None: "entered None l = l"
  by (simp add: entered_def)

lemmas field_defs = server_of_def portStr_of_def userID_of_def password_of_def certPassword_of_def

lemmas path_simps =
  run_def main_def return_destroying_def Cleanup_def GetInput_eq WMCAClient_new_def
  Load_eq SetServer_eq SetPort_eq IsConnected_eq Connect_eq Disconnect_eq Free_eq
  ncalls_def references_def resolution_def printf_if printf_def emit_def Let_def entered_None
  field_defs banner_def credentials_def final_world_def

lemmas path_defs =
  calling_def loading_def freeing_def disconnecting_def Load_ok_def SetServer_ok_def
  SetPort_ok_def login_args_def Connect_ok_def configuring_def

lemma run_stoi:
  assumes "stoi (portStr_of lines) = Inl ex"
  shows "run E lines = (Uncaught ex, \<lparr>stdin = tl (tl lines), trace = banner\<rparr>)"
  using assms by (simp add: path_simps split del: if_split cong: let_weak_cong)

lemma run_missing:
  assumes "stoi (portStr_of lines) = Inr port"
    and "userID_of lines = [] \<or> password_of lines = [] \<or> certPassword_of lines = []"
  shows "run E lines =
    (Exit 1, final_world lines (banner @ credentials @ [Print MsgMissingRequired, Return 1]))"
  using assms
  by (simp add: path_simps split del: if_split cong: let_weak_cong)

lemma run_absent:
  assumes "stoi (portStr_of lines) = Inr port"
    and "userID_of lines \<noteq> []" "password_of lines \<noteq> []" "certPassword_of lines \<noteq> []"
    and "library E ''wmca.dll'' = None"
  shows "run E lines =
    (Exit 1, final_world lines (banner @ credentials @
       [LoadLibraryA ''wmca.dll'' None, Print (MsgDllLoadFailed ''wmca.dll''),
        Print MsgHintHeader, Print MsgHintSystem32, Print MsgHintSameDir, Return 1,
        Print MsgNoFree]))"
  using assms
  by (simp add: path_simps LoadDLL_absent split del: if_split cong: let_weak_cong)

lemma run_unresolved_clean:
  assumes "stoi (portStr_of lines) = Inr port"
    and "userID_of lines \<noteq> []" "password_of lines \<noteq> []" "certPassword_of lines \<noteq> []"
    and "library E ''wmca.dll'' = Some h" "\<not> resolved_all E h"
    and "\<not> exports E h ''wmcaFree''"
  shows "run E lines =
    (Exit 1, final_world lines
       (loading E h @ [Print MsgResolveFailed, FreeLibrary h, Return 1, Print MsgNoFree]))"
proof -
  have "proc_address E h ''wmcaFree'' = None"
    using assms(7) by (simp add: proc_address_def)
  with assms show ?thesis
    by (simp add: path_simps path_defs LoadDLL_unresolved
          split del: if_split cong: let_weak_cong)
qed

lemma run_unresolved_stale:
  assumes "stoi (portStr_of lines) = Inr port"
    and "userID_of lines \<noteq> []" "password_of lines \<noteq> []" "certPassword_of lines \<noteq> []"
    and "library E ''wmca.dll'' = Some h" "\<not> resolved_all E h"
    and "exports E h ''wmcaFree''"
  shows "run E lines =
    (Undefined, final_world lines
       (loading E h @
        [Print MsgResolveFailed, FreeLibrary h, Return 1, Stale_call (Proc h ''wmcaFree'') []]))"
proof -
  have "proc_address E h ''wmcaFree'' = Some (Proc h ''wmcaFree'')"
    using assms(7) by (simp add: proc_address_def)
  with assms show ?thesis
    by (simp add: path_simps path_defs LoadDLL_unresolved
          split del: if_split cong: let_weak_cong)
qed

lemma run_Load_failed:
  assumes "stoi (portStr_of lines) = Inr port"
    and "userID_of lines \<noteq> []" "password_of lines \<noteq> []" "certPassword_of lines \<noteq> []"
    and "library E ''wmca.dll'' = Some h" "resolved_all E h"
    and "\<not> Load_ok E h"
  shows "run E lines =
    (Exit 1, final_world lines
       (loading E h @ configuring E h lines port 2 @ [Return 1] @ freeing E h 0 @
        [FreeLibrary h]))"
  using assms
  by (simp add: path_simps path_defs LoadDLL_resolved
        split del: if_split cong: let_weak_cong)

lemma run_SetServer_failed:
  assumes "stoi (portStr_of lines) = Inr port"
    and "userID_of lines \<noteq> []" "password_of lines \<noteq> []" "certPassword_of lines \<noteq> []"
    and "library E ''wmca.dll'' = Some h" "resolved_all E h"
    and "Load_ok E h" "\<not> SetServer_ok E h lines"
  shows "run E lines =
    (Exit 1, final_world lines
       (loading E h @ configuring E h lines port 3 @ freeing E h 0 @ [Return 1] @
        freeing E h 1 @ [FreeLibrary h]))"
  using assms
  by (simp add: path_simps path_defs LoadDLL_resolved
        split del: if_split cong: let_weak_cong)

lemma run_SetPort_failed:
  assumes "stoi (portStr_of lines) = Inr port"
    and "userID_of lines \<noteq> []" "password_of lines \<noteq> []" "certPassword_of lines \<noteq> []"
    and "library E ''wmca.dll'' = Some h" "resolved_all E h"
    and "Load_ok E h" "SetServer_ok E h lines" "\<not> SetPort_ok E h port"
  shows "run E lines =
    (Exit 1, final_world lines
       (loading E h @ configuring E h lines port 4 @ freeing E h 0 @ [Return 1] @
        freeing E h 1 @ [FreeLibrary h]))"
  using assms
  by (simp add: path_simps path_defs LoadDLL_resolved
        split del: if_split cong: let_weak_cong)

lemma run_Connect_failed:
  assumes "stoi (portStr_of lines) = Inr port"
    and "userID_of lines \<noteq> []" "password_of lines \<noteq> []" "certPassword_of lines \<noteq> []"
    and "library E ''wmca.dll'' = Some h" "resolved_all E h"
    and "Load_ok E h" "SetServer_ok E h lines" "SetPort_ok E h port" "\<not> Connect_ok E h lines"
  shows "run E lines =
    (Exit 1, final_world lines
       (loading E h @ configuring E h lines port 5 @ freeing E h 0 @ [Return 1] @
        freeing E h 1 @ [FreeLibrary h]))"
  using assms
  by (simp add: path_simps path_defs LoadDLL_resolved
        split del: if_split cong: let_weak_cong)

lemma run_connected:
  assumes "stoi (portStr_of lines) = Inr port"
    and "userID_of lines \<noteq> []" "password_of lines \<noteq> []" "certPassword_of lines \<noteq> []"
    and "library E ''wmca.dll'' = Some h" "resolved_all E h"
    and "Load_ok E h" "SetServer_ok E h lines" "SetPort_ok E h port" "Connect_ok E h lines"
  shows "run E lines =
    (Undefined, final_world lines (loading E h @ configuring E h lines port 5 @ session E h))"
proof (cases "answer E (Proc h ''wmcaDisconnect'') 0 []")
  case True
  with assms show ?thesis
    by (simp add: path_simps path_defs session_def LoadDLL_resolved
          split del: if_split cong: let_weak_cong)
next
  case d0: False
  show ?thesis
  proof (cases "answer E (Proc h ''wmcaDisconnect'') 1 []")
    case True
    with d0 assms show ?thesis
      by (simp add: path_simps path_defs session_def LoadDLL_resolved
            split del: if_split cong: let_weak_cong)
  next
    case False
    with d0 assms show ?thesis
      by (simp add: path_simps path_defs session_def LoadDLL_resolved
            split del: if_split cong: let_weak_cong)
  qed
qed

lemma run_cases [case_names Stoi Missing Absent Unresolved_clean Unresolved_stale Load_failed
    SetServer_failed SetPort_failed Connect_failed Connected]:
  obtains
    ex where "stoi (portStr_of lines) = Inl ex"
      and "run E lines = (Uncaught ex, \<lparr>stdin = tl (tl lines), trace = banner\<rparr>)"
  | port where "stoi (portStr_of lines) = Inr port"
      and "userID_of lines = [] \<or> password_of lines = [] \<or> certPassword_of lines = []"
      and "run E lines =
        (Exit 1, final_world lines (banner @ credentials @ [Print MsgMissingRequired, Return 1]))"
  | port where "stoi (portStr_of lines) = Inr port"
      and "userID_of lines \<noteq> []" "password_of lines \<noteq> []" "certPassword_of lines \<noteq> []"
      and "library E ''wmca.dll'' = None"
      and "run E lines =
        (Exit 1, final_world lines (banner @ credentials @
           [LoadLibraryA ''wmca.dll'' None, Print (MsgDllLoadFailed ''wmca.dll''),
            Print MsgHintHeader, Print MsgHintSystem32, Print MsgHintSameDir, Return 1,
            Print MsgNoFree]))"
  | port h where "stoi (portStr_of lines) = Inr port"
      and "userID_of lines \<noteq> []" "password_of lines \<noteq> []" "certPassword_of lines \<noteq> []"
      and "library E ''wmca.dll'' = Some h" "\<not> resolved_all E h"
      and "\<not> exports E h ''wmcaFree''"
      and "run E lines =
        (Exit 1, final_world lines
           (loading E h @ [Print MsgResolveFailed, FreeLibrary h, Return 1, Print MsgNoFree]))"
  | port h where "stoi (portStr_of lines) = Inr port"
      and "userID_of lines \<noteq> []" "password_of lines \<noteq> []" "certPassword_of lines \<noteq> []"
      and "library E ''wmca.dll'' = Some h" "\<not> resolved_all E h"
      and "exports E h ''wmcaFree''"
      and "run E lines =
        (Undefined, final_world lines
           (loading E h @
            [Print MsgResolveFailed, FreeLibrary h, Return 1,
             Stale_call (Proc h ''wmcaFree'') []]))"
  | port h where "stoi (portStr_of lines) = Inr port"
      and "userID_of lines \<noteq> []" "password_of lines \<noteq> []" "certPassword_of lines \<noteq> []"
      and "library E ''wmca.dll'' = Some h" "resolved_all E h"
      and "\<not> Load_ok E h"
      and "run E lines =
        (Exit 1, final_world lines
           (loading E h @ configuring E h lines port 2 @ [Return 1] @ freeing E h 0 @
            [FreeLibrary h]))"
  | port h where "stoi (portStr_of lines) = Inr port"
      and "userID_of lines \<noteq> []" "password_of lines \<noteq> []" "certPassword_of lines \<noteq> []"
      and "library E ''wmca.dll'' = Some h" "resolved_all E h"
      and "Load_ok E h" "\<not> SetServer_ok E h lines"
      and "run E lines =
        (Exit 1, final_world lines
           (loading E h @ configuring E h lines port 3 @ freeing E h 0 @ [Return 1] @
            freeing E h 1 @ [FreeLibrary h]))"
  | port h where "stoi (portStr_of lines) = Inr port"
      and "userID_of lines \<noteq> []" "password_of lines \<noteq> []" "certPassword_of lines \<noteq> []"
      and "library E ''wmca.dll'' = Some h" "resolved_all E h"
      and "Load_ok E h" "SetServer_ok E h lines" "\<not> SetPort_ok E h port"
      and "run E lines =
        (Exit 1, final_world lines
           (loading E h @ configuring E h lines port 4 @ freeing E h 0 @ [Return 1] @
            freeing E h 1 @ [FreeLibrary h]))"
  | port h where "stoi (portStr_of lines) = Inr port"
      and "userID_of lines \<noteq> []" "password_of lines \<noteq> []" "certPassword_of lines \<noteq> []"
      and "library E ''wmca.dll'' = Some h" "resolved_all E h"
      and "Load_ok E h" "SetServer_ok E h lines" "SetPort_ok E h port"
      and "\<not> Connect_ok E h lines"
      and "run E lines =
        (Exit 1, final_world lines
           (loading E h @ configuring E h lines port 5 @ freeing E h 0 @ [Return 1] @
            freeing E h 1 @ [FreeLibrary h]))"
  | port h where "stoi (portStr_of lines) = Inr port"
      and "userID_of lines \<noteq> []" "password_of lines \<noteq> []" "certPassword_of lines \<noteq> []"
      and "library E ''wmca.dll'' = Some h" "resolved_all E h"
      and "Load_ok E h" "SetServer_ok E h lines" "SetPort_ok E h port" "Connect_ok E h lines"
      and "run E lines =
        (Undefined, final_world lines
           (loading E h @ configuring E h lines port 5 @ session E h))"
proof (cases "stoi (portStr_of lines)")
  case (Inl ex)
  then show ?thesis using that(1) run_stoi by blast
next
  case (Inr port)
  show ?thesis
  proof (cases "userID_of lines = [] \<or> password_of lines = [] \<or> certPassword_of lines = []")
    case True
    then show ?thesis using Inr that(2) run_missing by blast
  next
    case False
    then have f: "userID_of lines \<noteq> []" "password_of lines \<noteq> []" "certPassword_of lines \<noteq> []"
      by simp_all
    show ?thesis
    proof (cases "library E ''wmca.dll''")
      case None
      then show ?thesis using Inr f that(3) run_absent by blast
    next
      case (Some h)
      note pre = Inr f Some
      show ?thesis
      proof (cases "resolved_all E h")
        case u: False
        show ?thesis
        proof (cases "exports E h ''wmcaFree''")
          case False
          then show ?thesis using pre u that(4) run_unresolved_clean by blast
        next
          case True
          then show ?thesis using pre u that(5) run_unresolved_stale by blast
        qed
      next
        case r: True
        show ?thesis
        proof (cases "Load_ok E h")
          case False
          then show ?thesis using pre r that(6) run_Load_failed by blast
        next
          case l: True
          show ?thesis
          proof (cases "SetServer_ok E h lines")
            case False
            then show ?thesis using pre r l that(7) run_SetServer_failed by blast
          next
            case s: True
            show ?thesis
            proof (cases "SetPort_ok E h port")
              case False
              then show ?thesis using pre r l s that(8) run_SetPort_failed by blast
            next
              case p: True
              show ?thesis
              proof (cases "Connect_ok E h lines")
                case False
                then show ?thesis using pre r l s p that(9) run_Connect_failed by blast
              next
                case True
                then show ?thesis using pre r l s p that(10) run_connected by blast
              qed
            qed
          qed
        qed
      qed
    qed
  qed
qed

section \<open>Facts shared by the properties\<close>

lemmas trace_defs =
  final_world_def loading_def configuring_def session_def freeing_def disconnecting_def
  calling_def resolution_def banner_def credentials_def

lemmas projections =
  unloads_def loads_def natives_def sleeps_def prompts_def returns_def stale_calls_def

lemma run_releases:
  "unloads (trace (snd (run E lines))) = loads (trace (snd (run E lines))) \<and>
   length (loads (trace (snd (run E lines)))) \<le> 1"
  by (rule run_cases[of lines E]) (simp_all add: trace_defs projections)

lemma run_prompts:
  "prompts (trace (snd (run E lines))) =
     (case stoi (portStr_of lines) of
        Inl ex \<Rightarrow> [PromptServer, PromptPort]
      | Inr port \<Rightarrow>
          [PromptServer, PromptPort, PromptUserID, PromptPassword, PromptCertPassword])"
  by (rule run_cases[of lines E]) (simp_all add: trace_defs projections)

lemma run_returns:
  "returns (trace (snd (run E lines))) =
     (case stoi (portStr_of lines) of
        Inl ex \<Rightarrow> []
      | Inr port \<Rightarrow> [if logs_in E lines port then 0 else 1])"
  by (rule run_cases[of lines E]) (auto simp add: trace_defs projections logs_in_def)

lemma run_outcome:
  "fst (run E lines) =
     (case stoi (portStr_of lines) of
        Inl ex \<Rightarrow> Uncaught ex
      | Inr port \<Rightarrow>
          if stale_calls (trace (snd (run E lines))) = []
          then Exit (if logs_in E lines port then 0 else 1)
          else Undefined)"
  by (rule run_cases[of lines E]) (auto simp add: trace_defs projections logs_in_def)

lemma run_loads_from:
  "list_all (\<lambda>p. p = ''wmca.dll'') (concat (map loads_from (trace (snd (run E lines)))))"
  by (rule run_cases[of lines E]) (simp_all add: trace_defs)

subsection \<open>Cleanup\<close>

lemma mapped_Call: "mapped p (tr @ [Call q args r]) = mapped p tr"
  by (cases p) (simp add: references_def)

lemma mapped_Stale_call: "mapped p (tr @ [Stale_call q args]) = mapped p tr"
  by (cases p) (simp add: references_def)

lemma mapped_Call_Print: "mapped p (tr @ [Call q args r, Print m]) = mapped p tr"
  by (cases p) (simp add: references_def)

lemma Cleanup_release:
  "Cleanup E c w =
     (if m_bConnected c
      then (case Disconnect E c w of
              (None, c', w') \<Rightarrow> (None, c', w')
            | (Some r, c', w') \<Rightarrow> release E c' w')
      else release E c w)"
  by (cases "Disconnect E c w") (auto simp add: Cleanup_def release_def Let_def)

lemma release_handle:
  "m_hDll (fst (snd (release E c w))) = (if fst (release E c w) = None then m_hDll c else None)"
  by (simp add: release_def Free_eq split: option.splits)

lemma release_unloads:
  "unloads (trace (snd (snd (release E c w)))) =
     unloads (trace w) @
     (if fst (release E c w) = None then []
      else (case m_hDll c of Some h \<Rightarrow> [h] | None \<Rightarrow> []))"
  by (simp add: release_def Free_eq unloads_def emit_def split: option.splits)

lemma release_flag: "m_bConnected (fst (snd (release E c w))) = m_bConnected c"
  by (simp add: release_def Free_eq split: option.splits)

lemma release_pointers: "pointers (fst (snd (release E c w))) = pointers c"
  by (simp add: release_def Free_eq pointers_def split: option.splits)

lemma Disconnect_handle: "m_hDll (fst (snd (Disconnect E c w))) = m_hDll c"
  by (simp add: Disconnect_eq split: option.splits)

lemma Disconnect_unloads: "unloads (trace (snd (snd (Disconnect E c w)))) = unloads (trace w)"
  by (simp add: Disconnect_eq unloads_def split: option.splits)

lemma Disconnect_pointers: "pointers (fst (snd (Disconnect E c w))) = pointers c"
  by (simp add: Disconnect_eq pointers_def split: option.splits)

lemma Connect_pointers: "pointers (fst (snd (Connect E i pw cert m u c w))) = pointers c"
  by (simp add: Connect_eq pointers_def split: option.splits)

lemma Cleanup_pointers: "pointers (fst (snd (Cleanup E c w))) = pointers c"
  by (cases "Disconnect E c w")
     (use Disconnect_pointers[of E c w] in
       \<open>auto simp add: Cleanup_release release_pointers split: option.splits\<close>)

lemma Cleanup_handle:
  "m_hDll (fst (snd (Cleanup E c w))) = (if fst (Cleanup E c w) = None then m_hDll c else None)"
  by (cases "Disconnect E c w")
     (use Disconnect_handle[of E c w] in
       \<open>auto simp add: Cleanup_release release_handle split: option.splits\<close>)

lemma Cleanup_unloads:
  "unloads (trace (snd (snd (Cleanup E c w)))) =
     unloads (trace w) @
     (if fst (Cleanup E c w) = None then []
      else (case m_hDll c of Some h \<Rightarrow> [h] | None \<Rightarrow> []))"
  by (cases "Disconnect E c w")
     (use Disconnect_handle[of E c w] Disconnect_unloads[of E c w] in
       \<open>auto simp add: Cleanup_release release_unloads split: option.splits\<close>)

lemma Disconnect_mapped:
  "mapped q (trace (snd (snd (Disconnect E c w)))) = mapped q (trace w)"
  by (simp add: Disconnect_eq mapped_Call_Print mapped_Stale_call mapped_Print
        split: option.splits)

lemma Disconnect_stops:
  "(fst (Disconnect E c w) = None) =
     (case m_pDisconnect c of None \<Rightarrow> False | Some p \<Rightarrow> \<not> mapped p (trace w))"
  by (simp add: Disconnect_eq split: option.splits)

lemma Disconnect_stopped: "fst (Disconnect E c w) = None \<Longrightarrow> fst (snd (Disconnect E c w)) = c"
  by (simp add: Disconnect_eq split: option.splits if_splits)

lemma release_stops:
  "(fst (release E c w) = None) =
     (case m_pFree c of None \<Rightarrow> False | Some q \<Rightarrow> \<not> mapped q (trace w))"
  by (simp add: release_def Free_eq split: option.splits)

lemma release_mapped:
  assumes "fst (release E c w) = None"
  shows "mapped q (trace (snd (snd (release E c w)))) = mapped q (trace w)"
proof -
  from assms obtain p where p: "m_pFree c = Some p" "\<not> mapped p (trace w)"
    by (auto simp add: release_stops split: option.splits)
  then have "release E c w = (None, c, w\<lparr>trace := trace w @ [Stale_call p []]\<rparr>)"
    by (simp add: release_def Free_eq)
  then show ?thesis
    by (simp add: mapped_Stale_call)
qed

lemma pointers_Free: "pointers c' = pointers c \<Longrightarrow> m_pFree c' = m_pFree c"
  by (simp add: pointers_def)

lemma pointers_Disconnect: "pointers c' = pointers c \<Longrightarrow> m_pDisconnect c' = m_pDisconnect c"
  by (simp add: pointers_def)

lemma Cleanup_stops:
  "(fst (Cleanup E c w) = None) =
     ((m_bConnected c \<and> fst (Disconnect E c w) = None) \<or> fst (release E c w) = None)"
proof (cases "m_bConnected c")
  case False
  then show ?thesis by (simp add: Cleanup_release)
next
  case True
  obtain r c' w' where d: "Disconnect E c w = (r, c', w')"
    by (cases "Disconnect E c w") auto
  have f: "m_pFree c' = m_pFree c"
    using Disconnect_pointers[of E c w] d by (simp add: pointers_def)
  have m: "\<And>q. mapped q (trace w') = mapped q (trace w)"
    using Disconnect_mapped[of _ E c w] d by simp
  have "(fst (release E c' w') = None) = (fst (release E c w) = None)"
    by (simp add: release_stops f m split: option.splits)
  with True d show ?thesis
    by (cases r) (simp_all add: Cleanup_release)
qed

lemma Cleanup_mapped:
  assumes "fst (Cleanup E c w) = None"
  shows "mapped q (trace (snd (snd (Cleanup E c w)))) = mapped q (trace w)"
proof -
  obtain r c' w' where d: "Disconnect E c w = (r, c', w')"
    by (cases "Disconnect E c w") auto
  have m: "mapped q (trace w') = mapped q (trace w)"
    using Disconnect_mapped[of q E c w] d by simp
  show ?thesis
  proof (cases "m_bConnected c")
    case False
    with assms show ?thesis by (simp add: Cleanup_release release_mapped)
  next
    case True
    show ?thesis
    proof (cases r)
      case None
      with True d m show ?thesis by (simp add: Cleanup_release)
    next
      case (Some b)
      with True d assms have "fst (release E c' w') = None"
        by (simp add: Cleanup_release)
      then have "mapped q (trace (snd (snd (release E c' w')))) = mapped q (trace w')"
        by (rule release_mapped)
      with True d Some m show ?thesis by (simp add: Cleanup_release)
    qed
  qed
qed

lemma Cleanup_stopped_again:
  assumes "fst (Cleanup E c w) = None"
  shows "fst (Cleanup E (fst (snd (Cleanup E c w))) (snd (snd (Cleanup E c w)))) = None"
proof -
  let ?c = "fst (snd (Cleanup E c w))" and ?w = "snd (snd (Cleanup E c w))"
  have p: "pointers ?c = pointers c"
    by (rule Cleanup_pointers)
  have m: "\<And>q. mapped q (trace ?w) = mapped q (trace w)"
    using assms by (rule Cleanup_mapped)
  from assms consider
      (a) "m_bConnected c" "fst (Disconnect E c w) = None"
    | (b) "fst (release E c w) = None"
    by (auto simp add: Cleanup_stops)
  then show ?thesis
  proof cases
    case a
    then have "?c = c"
      using Disconnect_stopped[of E c w]
      by (cases "Disconnect E c w") (simp add: Cleanup_release)
    with a have "m_bConnected ?c \<and> fst (Disconnect E ?c ?w) = None"
      by (simp add: Disconnect_stops m split: option.splits)
    then show ?thesis by (simp add: Cleanup_stops)
  next
    case b
    then have "fst (release E ?c ?w) = None"
      by (simp add: release_stops m pointers_Free[OF p] split: option.splits)
    then show ?thesis by (simp add: Cleanup_stops)
  qed
qed

lemma Cleanup_twice_unloads:
  "unloads (trace (snd (snd (Cleanup E (fst (snd (Cleanup E c w))) (snd (snd (Cleanup E c w))))))) =
     unloads (trace (snd (snd (Cleanup E c w))))"
proof (cases "fst (Cleanup E c w) = None")
  case True
  then show ?thesis
    using Cleanup_stopped_again[OF True]
    by (simp add: Cleanup_unloads[of E "fst (snd (Cleanup E c w))"])
next
  case False
  then have "m_hDll (fst (snd (Cleanup E c w))) = None"
    by (simp add: Cleanup_handle)
  then show ?thesis
    by (simp add: Cleanup_unloads[of E "fst (snd (Cleanup E c w))"])
qed

lemma LoadDLL_flag: "m_bConnected (fst (snd (LoadDLL E path c w))) = m_bConnected c"
proof (cases "library E path")
  case None
  then show ?thesis by (simp add: LoadDLL_absent)
next
  case (Some h)
  then show ?thesis
    by (cases "resolved_all E h") (simp_all add: LoadDLL_unresolved LoadDLL_resolved)
qed

lemma LoadDLL_true:
  assumes "LoadDLL E path c0 w0 = (True, c, w)"
  shows "list_all (\<lambda>p. p \<noteq> None) (pointers c)"
proof (cases "library E path")
  case None
  with assms show ?thesis by (simp add: LoadDLL_absent)
next
  case (Some h)
  with assms show ?thesis
    by (cases "resolved_all E h") (auto simp: LoadDLL_unresolved LoadDLL_resolved pointers_def)
qed

lemma perform_pointers: "pointers (fst (snd (perform E s call))) = pointers (fst (snd s))"
proof (cases s)
  case (fields b c w)
  show ?thesis
  proof (cases b)
    case False
    with fields show ?thesis by simp
  next
    case True
    with fields show ?thesis
      by (cases call)
         (simp_all add: split_def Let_def Connect_pointers Disconnect_pointers Cleanup_pointers)
  qed
qed

lemma performs_pointers:
  "pointers (fst (snd (foldl (perform E) s calls))) = pointers (fst (snd s))"
  by (induction calls arbitrary: s) (simp_all add: perform_pointers)

lemma null_branch_pointers: "list_all (\<lambda>p. p \<noteq> None) (pointers c) \<Longrightarrow> \<not> null_branch m c"
  by (cases m) (simp_all add: pointers_def)

subsection \<open>The destructor's calls after the unload\<close>

text \<open>
  \<open>Cleanup\<close> calls \<open>Disconnect\<close> and \<open>Free\<close> whether or not the library is still loaded.
  Every run that logs in reaches \<open>return 0\<close> and then makes one undefined call, from the
  destructor of \<open>client\<close>, after the \<open>FreeLibrary\<close> of the explicit \<open>Cleanup\<close>. So does every
  run in which the library loads and a name other than \<open>wmcaFree\<close> fails to resolve, after
  \<open>return 1\<close> and the \<open>FreeLibrary\<close> of \<open>LoadDLL\<close>.
\<close>

lemma stale_call_after_login:
  assumes "stoi (portStr_of lines) = Inr port" and "logs_in E lines port"
  shows "fst (run E lines) = Undefined \<and>
    returns (trace (snd (run E lines))) = [0] \<and>
    length (stale_calls (trace (snd (run E lines)))) = 1 \<and>
    last (natives (trace (snd (run E lines)))) \<in> {''wmcaFree'', ''wmcaDisconnect''} \<and>
    ''FreeLibrary'' \<in> set (butlast (natives (trace (snd (run E lines)))))"
  using assms
  by - (rule run_cases[of lines E], auto simp add: trace_defs projections logs_in_def)

lemma stale_Free_after_failed_resolution:
  assumes "LoadLibraryA ''wmca.dll'' (Some h) \<in> set (trace (snd (run E lines)))"
    and "\<not> resolved_all E h"
  shows "returns (trace (snd (run E lines))) = [1] \<and>
    fst (run E lines) = (if exports E h ''wmcaFree'' then Undefined else Exit 1) \<and>
    natives (trace (snd (run E lines))) =
      ''FreeLibrary'' # (if exports E h ''wmcaFree'' then [''wmcaFree''] else []) \<and>
    stale_calls (trace (snd (run E lines))) =
      (if exports E h ''wmcaFree'' then [Proc h ''wmcaFree''] else [])"
  using assms
  by - (rule run_cases[of lines E],
        auto simp add: trace_defs projections proc_address_def split: if_splits)

subsection \<open>The concrete runs\<close>

lemma typical_fields:
  "stoi (portStr_of typical_input) = Inr 9000"
  "server_of typical_input = ''127.0.0.1''"
  "userID_of typical_input = ''user''"
  "password_of typical_input = ''secret''"
  "certPassword_of typical_input = ''cert''"
  by (simp_all add: typical_input_def field_defs entered_def readln_def stoi_def c_str_def
        isspace_def isdigit_def digits_value_def)

lemma vendor_simps:
  "library (vendor missing failing) ''wmca.dll'' = Some 1"
  "exports (vendor missing failing) h name = (name \<notin> set missing)"
  "answer (vendor missing failing) (Proc h name) k args = (name \<notin> set failing)"
  by (simp_all add: vendor_def)

lemma vendor_resolved: "resolved_all (vendor [] failing) h"
  by (simp add: resolved_all_def vendor_simps)

lemma vendor_logs_in:
  "logs_in (vendor [] []) typical_input 9000"
  "logs_in (vendor [] [''wmcaIsConnected'', ''wmcaDisconnect'', ''wmcaFree'']) typical_input 9000"
  "\<not> logs_in (vendor [] [''wmcaConnect'']) typical_input 9000"
  by (simp_all add: logs_in_def typical_fields vendor_simps vendor_resolved Load_ok_def
        SetServer_ok_def SetPort_ok_def Connect_ok_def)

lemma run_vendor:
  "run (vendor [] []) typical_input =
     (Undefined, final_world typical_input
        (loading (vendor [] []) 1 @ configuring (vendor [] []) 1 typical_input 9000 5 @
         session (vendor [] []) 1))"
  by (rule run_connected)
     (simp_all add: typical_fields vendor_simps vendor_resolved Load_ok_def SetServer_ok_def
        SetPort_ok_def Connect_ok_def)

lemma run_vendor_late_failures:
  "run (vendor [] [''wmcaIsConnected'', ''wmcaDisconnect'', ''wmcaFree'']) typical_input =
     (Undefined, final_world typical_input
        (loading (vendor [] [''wmcaIsConnected'', ''wmcaDisconnect'', ''wmcaFree'']) 1 @
         configuring (vendor [] [''wmcaIsConnected'', ''wmcaDisconnect'', ''wmcaFree'']) 1
           typical_input 9000 5 @
         session (vendor [] [''wmcaIsConnected'', ''wmcaDisconnect'', ''wmcaFree'']) 1))"
  by (rule run_connected)
     (simp_all add: typical_fields vendor_simps vendor_resolved Load_ok_def SetServer_ok_def
        SetPort_ok_def Connect_ok_def)

lemma run_vendor_refusing_login:
  "run (vendor [] [''wmcaConnect'']) typical_input =
     (Exit 1, final_world typical_input
        (loading (vendor [] [''wmcaConnect'']) 1 @
         configuring (vendor [] [''wmcaConnect'']) 1 typical_input 9000 5 @
         freeing (vendor [] [''wmcaConnect'']) 1 0 @ [Return 1] @
         freeing (vendor [] [''wmcaConnect'']) 1 1 @ [FreeLibrary 1]))"
  by (rule run_Connect_failed)
     (simp_all add: typical_fields vendor_simps vendor_resolved Load_ok_def SetServer_ok_def
        SetPort_ok_def Connect_ok_def)

lemma run_vendor_lacking_Load:
  "run (vendor [''wmcaLoad''] []) typical_input =
     (Undefined, final_world typical_input
        (loading (vendor [''wmcaLoad''] []) 1 @
         [Print MsgResolveFailed, FreeLibrary 1, Return 1, Stale_call (Proc 1 ''wmcaFree'') []]))"
proof -
  have "\<not> resolved_all (vendor [''wmcaLoad''] []) 1"
    by (simp add: resolved_all_def vendor_simps)
  then show ?thesis
    using run_unresolved_stale[of typical_input 9000 "vendor [''wmcaLoad''] []" 1]
    by (simp add: typical_fields vendor_simps)
qed

lemma run_no_vendor:
  "run no_vendor typical_input =
     (Exit 1, final_world typical_input (banner @ credentials @
        [LoadLibraryA ''wmca.dll'' None, Print (MsgDllLoadFailed ''wmca.dll''),
         Print MsgHintHeader, Print MsgHintSystem32, Print MsgHintSameDir, Return 1,
         Print MsgNoFree]))"
  by (rule run_absent[where port = 9000]) (simp_all add: typical_fields no_vendor_def)

lemmas eval_defs = trace_defs projections vendor_simps proc_address_def

section \<open>The properties\<close>

text \<open>
  C1, as the code has it. \<open>main\<close> returns 1 when a required field is empty or one of
  \<open>LoadDLL\<close> (the library is found and all seven names resolve), \<open>Load\<close>, \<open>SetServer\<close>,
  \<open>SetPort\<close>, \<open>Connect\<close> fails, and returns 0 when the fields are filled and these five
  steps succeed; what \<open>IsConnected\<close>, \<open>Disconnect\<close> and \<open>Free\<close> return afterwards is not
  tested and does not change the value. When \<open>stoi\<close> rejects the port string \<open>main\<close>
  returns nothing: the exception leaves it. The value returned is the exit code of every
  run that makes no call into a module already unloaded; nothing is said here about the
  exit code of the other runs.
\<close>

theorem main_returns:
  "returns (trace (snd (run E lines))) =
     (case stoi (portStr_of lines) of
        Inl ex \<Rightarrow> []
      | Inr port \<Rightarrow> [if logs_in E lines port then 0 else 1]) \<and>
   fst (run E lines) =
     (case stoi (portStr_of lines) of
        Inl ex \<Rightarrow> Uncaught ex
      | Inr port \<Rightarrow>
          if stale_calls (trace (snd (run E lines))) = []
          then Exit (if logs_in E lines port then 0 else 1)
          else Undefined)"
  using run_returns[of E lines] run_outcome[of E lines] by simp

theorem main_returns_witness:
  "returns (trace (snd (run (vendor [] []) typical_input))) = [0] \<and>
   returns (trace (snd (run (vendor [] [''wmcaConnect'']) typical_input))) = [1] \<and>
   fst (run (vendor [] [''wmcaConnect'']) typical_input) = Exit 1"
  using main_returns[of "vendor [] []" typical_input]
    main_returns[of "vendor [] [''wmcaConnect'']" typical_input]
  by (simp add: typical_fields vendor_logs_in run_vendor_refusing_login eval_defs)

text \<open>
  C1 as stated asks that \<open>main\<close> return 1 after any failed step, the connection check,
  the disconnect and the module release included. In this run \<open>wmcaIsConnected\<close>,
  \<open>wmcaDisconnect\<close> and \<open>wmcaFree\<close> all return FALSE, each called while the library is
  loaded, and \<open>main\<close> then executes \<open>return 0\<close>; the run does not end with exit code 1.
\<close>

theorem main_returns_counterexample:
  "returns (trace (snd (run (vendor [] [''wmcaIsConnected'', ''wmcaDisconnect'', ''wmcaFree''])
      typical_input))) = [0] \<and>
   fst (run (vendor [] [''wmcaIsConnected'', ''wmcaDisconnect'', ''wmcaFree'']) typical_input)
     \<noteq> Exit 1 \<and>
   Call (Proc 1 ''wmcaIsConnected'') [] False
     \<in> set (trace (snd (run (vendor [] [''wmcaIsConnected'', ''wmcaDisconnect'', ''wmcaFree''])
          typical_input))) \<and>
   Call (Proc 1 ''wmcaDisconnect'') [] False
     \<in> set (trace (snd (run (vendor [] [''wmcaIsConnected'', ''wmcaDisconnect'', ''wmcaFree''])
          typical_input))) \<and>
   Call (Proc 1 ''wmcaFree'') [] False
     \<in> set (trace (snd (run (vendor [] [''wmcaIsConnected'', ''wmcaDisconnect'', ''wmcaFree''])
          typical_input)))"
  by (simp add: run_vendor_late_failures eval_defs)

text \<open>
  C2, evaluated where every native call succeeds. The entry points are invoked in the
  order the sequence prescribes up to the library unload, and then \<open>wmcaFree\<close> is invoked
  a second time: the destructor of \<open>client\<close> runs \<open>Cleanup\<close> again, whose call of \<open>Free\<close> is
  not guarded the way its \<open>FreeLibrary\<close> is, through the pointer resolved in the module
  that has just been unloaded. That call is undefined, and the run ends there, after
  \<open>main\<close> has executed \<open>return 0\<close>.
\<close>

theorem success_path_native_calls:
  "natives (trace (snd (run (vendor [] []) typical_input))) =
     [''wmcaLoad'', ''wmcaSetServer'', ''wmcaSetPort'', ''wmcaConnect'', ''wmcaIsConnected'',
      ''Sleep'', ''wmcaDisconnect'', ''wmcaFree'', ''FreeLibrary'', ''wmcaFree''] \<and>
   stale_calls (trace (snd (run (vendor [] []) typical_input))) = [Proc 1 ''wmcaFree''] \<and>
   last (trace (snd (run (vendor [] []) typical_input))) = Stale_call (Proc 1 ''wmcaFree'') [] \<and>
   returns (trace (snd (run (vendor [] []) typical_input))) = [0] \<and>
   fst (run (vendor [] []) typical_input) = Undefined"
  by (simp add: run_vendor eval_defs)

text \<open>
  C3, evaluated on a module that lacks \<open>wmcaLoad\<close> only. The seven names are looked up,
  \<open>LoadDLL\<close> unloads the library and \<open>main\<close> executes \<open>return 1\<close>; but the destructor of
  \<open>client\<close> then invokes \<open>wmcaFree\<close>, which did resolve, after the unload. That call is
  undefined, and the run ends there.
\<close>

theorem missing_entry_point_run:
  "returns (trace (snd (run (vendor [''wmcaLoad''] []) typical_input))) = [1] \<and>
   filter is_resolution (trace (snd (run (vendor [''wmcaLoad''] []) typical_input))) =
     resolution (vendor [''wmcaLoad''] []) 1 \<and>
   length (resolution (vendor [''wmcaLoad''] []) 1) = 7 \<and>
   natives (trace (snd (run (vendor [''wmcaLoad''] []) typical_input))) =
     [''FreeLibrary'', ''wmcaFree''] \<and>
   stale_calls (trace (snd (run (vendor [''wmcaLoad''] []) typical_input))) =
     [Proc 1 ''wmcaFree''] \<and>
   fst (run (vendor [''wmcaLoad''] []) typical_input) = Undefined"
  by (simp add: run_vendor_lacking_Load eval_defs)

text \<open>
  C4. Every \<open>LoadLibraryA\<close> of a run is given the path "wmca.dll". When it returns NULL,
  \<open>LoadDLL\<close> prints its message and returns false, \<open>main\<close> returns 1, and the run contains
  no \<open>GetProcAddress\<close> and no call of a vendor entry point at all.
\<close>

theorem absent_library_fails_fast:
  assumes "LoadLibraryA path None \<in> set (trace (snd (run E lines)))"
  shows "path = ''wmca.dll'' \<and>
    list_all (\<lambda>p. p = ''wmca.dll'') (concat (map loads_from (trace (snd (run E lines))))) \<and>
    LoadDLL E ''wmca.dll'' c w =
      (False, c\<lparr>m_hDll := None\<rparr>,
       w\<lparr>trace := trace w @
          [LoadLibraryA ''wmca.dll'' None, Print (MsgDllLoadFailed ''wmca.dll''),
           Print MsgHintHeader, Print MsgHintSystem32, Print MsgHintSameDir]\<rparr>) \<and>
    fst (run E lines) = Exit 1 \<and>
    returns (trace (snd (run E lines))) = [1] \<and>
    filter is_resolution (trace (snd (run E lines))) = [] \<and>
    filter is_vendor_call (trace (snd (run E lines))) = []"
  using assms
  by - (rule run_cases[of lines E],
        auto simp add: trace_defs returns_def LoadDLL_absent split: if_splits)

theorem absent_library_fails_fast_witness:
  "LoadLibraryA ''wmca.dll'' None \<in> set (trace (snd (run no_vendor typical_input))) \<and>
   fst (run no_vendor typical_input) = Exit 1 \<and>
   filter is_resolution (trace (snd (run no_vendor typical_input))) = [] \<and>
   filter is_vendor_call (trace (snd (run no_vendor typical_input))) = []"
proof -
  have h: "LoadLibraryA ''wmca.dll'' None \<in> set (trace (snd (run no_vendor typical_input)))"
    by (simp add: run_no_vendor trace_defs)
  show ?thesis
    using h absent_library_fails_fast[OF h] by simp
qed

text \<open>
  C5. In every run the handles passed to \<open>FreeLibrary\<close> are exactly the handles
  \<open>LoadLibraryA\<close> returned, and there is at most one: a loaded library is released once,
  on the early exits too, and nothing is released that was not loaded. A \<open>Cleanup\<close> that
  returns has released the stored handle if there was one and cleared it; one that stops
  at an undefined call has released nothing and left the handle. Either way a second
  \<open>Cleanup\<close> (the destructor after the explicit call) releases nothing.
\<close>

theorem library_released_once:
  "unloads (trace (snd (run E lines))) = loads (trace (snd (run E lines))) \<and>
   length (loads (trace (snd (run E lines)))) \<le> 1 \<and>
   m_hDll (fst (snd (Cleanup E c w))) =
     (if fst (Cleanup E c w) = None then m_hDll c else None) \<and>
   unloads (trace (snd (snd (Cleanup E c w)))) =
     unloads (trace w) @
     (if fst (Cleanup E c w) = None then []
      else (case m_hDll c of Some h \<Rightarrow> [h] | None \<Rightarrow> [])) \<and>
   unloads (trace (snd (snd
       (Cleanup E (fst (snd (Cleanup E c w))) (snd (snd (Cleanup E c w))))))) =
     unloads (trace (snd (snd (Cleanup E c w))))"
  using run_releases[of E lines] Cleanup_handle[of E c w] Cleanup_unloads[of E c w]
    Cleanup_twice_unloads[of E c w]
  by simp

theorem library_released_once_witness:
  "unloads (trace (snd (run (vendor [] []) typical_input))) = [1] \<and>
   loads (trace (snd (run (vendor [] []) typical_input))) = [1] \<and>
   unloads (trace (snd (run (vendor [''wmcaLoad''] []) typical_input))) = [1] \<and>
   unloads (trace (snd (run (vendor [] [''wmcaConnect'']) typical_input))) = [1] \<and>
   unloads (trace (snd (run no_vendor typical_input))) = []"
  using library_released_once[of "vendor [] []" typical_input]
  by (simp add: run_vendor run_vendor_lacking_Load run_vendor_refusing_login run_no_vendor
        eval_defs)

text \<open>
  C6. \<open>GetInput\<close> with a default returns the default when the line read is empty and the
  line otherwise; without a default it returns the line. \<open>main\<close> prompts for the server
  address and the port number (the two fields with defaults) and, once the port string
  has been converted, for the user ID, the password and the certificate password.
\<close>

theorem GetInput_default:
  "fst (GetInput p (Some d) w) = (if fst (getline w) = [] then d else fst (getline w)) \<and>
   fst (GetInput p None w) = fst (getline w) \<and>
   prompts (trace (snd (run E lines))) =
     (case stoi (portStr_of lines) of
        Inl ex \<Rightarrow> [PromptServer, PromptPort]
      | Inr port \<Rightarrow>
          [PromptServer, PromptPort, PromptUserID, PromptPassword, PromptCertPassword])"
  using run_prompts[of E lines] by (simp add: GetInput_eq getline_eq entered_def)

text \<open>
  C7. A run that logs in (the port string is converted, the three required fields are
  filled, and \<open>LoadDLL\<close>, \<open>Load\<close>, \<open>SetServer\<close>, \<open>SetPort\<close> and \<open>Connect\<close> succeed) waits once,
  for 5000 ms, between the call of \<open>wmcaIsConnected\<close> and the call of \<open>wmcaDisconnect\<close>;
  every other run does not wait. (A run is one sequence of events: the source starts no
  thread and registers no callback.)
\<close>

theorem one_fixed_wait:
  "(case stoi (portStr_of lines) of
      Inl ex \<Rightarrow> sleeps (trace (snd (run E lines))) = []
    | Inr port \<Rightarrow>
        if logs_in E lines port
        then sleeps (trace (snd (run E lines))) = [5000] \<and>
             take 7 (natives (trace (snd (run E lines)))) =
               [''wmcaLoad'', ''wmcaSetServer'', ''wmcaSetPort'', ''wmcaConnect'',
                ''wmcaIsConnected'', ''Sleep'', ''wmcaDisconnect'']
        else sleeps (trace (snd (run E lines))) = [])"
  by (rule run_cases[of lines E]) (auto simp add: trace_defs projections logs_in_def)

theorem one_fixed_wait_witness:
  "logs_in (vendor [] []) typical_input 9000 \<and>
   sleeps (trace (snd (run (vendor [] []) typical_input))) = [5000] \<and>
   take 7 (natives (trace (snd (run (vendor [] []) typical_input)))) =
     [''wmcaLoad'', ''wmcaSetServer'', ''wmcaSetPort'', ''wmcaConnect'',
      ''wmcaIsConnected'', ''Sleep'', ''wmcaDisconnect''] \<and>
   \<not> logs_in (vendor [] [''wmcaConnect'']) typical_input 9000 \<and>
   sleeps (trace (snd (run (vendor [] [''wmcaConnect'']) typical_input))) = []"
  using one_fixed_wait[where E = "vendor [] []" and lines = typical_input]
    one_fixed_wait[where E = "vendor [] [''wmcaConnect'']" and lines = typical_input]
  by (simp add: typical_fields vendor_logs_in)

text \<open>
  C8. When \<open>LoadDLL\<close> has returned true the seven function pointers are non-NULL, no
  sequence of calls of the other public member functions changes them, and so none of
  these calls takes a branch guarded by a NULL pointer.
\<close>

theorem pointers_stay_resolved:
  assumes "LoadDLL E path c0 w0 = (True, c, w)"
  shows "list_all (\<lambda>p. p \<noteq> None) (pointers c) \<and>
    pointers (fst (snd (foldl (perform E) (True, c, w) calls))) = pointers c \<and>
    \<not> null_branch m (fst (snd (foldl (perform E) (True, c, w) calls)))"
proof -
  have r: "list_all (\<lambda>p. p \<noteq> None) (pointers c)"
    using assms by (rule LoadDLL_true)
  have p: "pointers (fst (snd (foldl (perform E) (True, c, w) calls))) = pointers c"
    by (simp add: performs_pointers)
  from r p have "\<not> null_branch m (fst (snd (foldl (perform E) (True, c, w) calls)))"
    by (simp add: null_branch_pointers)
  with r p show ?thesis by simp
qed

theorem pointers_stay_resolved_witness:
  "fst (LoadDLL (vendor [] []) ''wmca.dll'' WMCAClient_new \<lparr>stdin = [], trace = []\<rparr>) \<and>
   \<not> null_branch DoFree
       (fst (snd (foldl (perform (vendor [] []))
          (True, snd (LoadDLL (vendor [] []) ''wmca.dll'' WMCAClient_new
             \<lparr>stdin = [], trace = []\<rparr>))
          [DoLoad, DoCleanup, DoFree])))"
proof -
  have "fst (LoadDLL (vendor [] []) ''wmca.dll'' WMCAClient_new \<lparr>stdin = [], trace = []\<rparr>)"
    by (simp add: LoadDLL_resolved[where h = 1] vendor_simps vendor_resolved)
  then obtain c w where
    h: "LoadDLL (vendor [] []) ''wmca.dll'' WMCAClient_new \<lparr>stdin = [], trace = []\<rparr> = (True, c, w)"
    by (cases "LoadDLL (vendor [] []) ''wmca.dll'' WMCAClient_new \<lparr>stdin = [], trace = []\<rparr>") auto
  show ?thesis
    using h pointers_stay_resolved[OF h, of "[DoLoad, DoCleanup, DoFree]" DoFree] by simp
qed

text \<open>
  C9. With the port line "abc", \<open>stoi\<close> throws \<open>std::invalid_argument\<close>, nothing catches
  it, and the run ends there: after the second prompt, with no further message and no
  exit code, whatever the platform and the rest of the input are.
\<close>

theorem stoi_uncaught:
  "stoi ''abc'' = Inl Invalid_argument \<and>
   run E (server # ''abc'' # rest) =
     (Uncaught Invalid_argument, \<lparr>stdin = rest, trace = banner\<rparr>)"
proof -
  have s: "stoi ''abc'' = Inl Invalid_argument"
    by (simp add: stoi_def c_str_def isspace_def isdigit_def)
  have "portStr_of (server # ''abc'' # rest) = ''abc''"
    by (simp add: portStr_of_def entered_def readln_def)
  with s run_stoi[of "server # ''abc'' # rest" Invalid_argument E] show ?thesis
    by simp
qed

text \<open>
  C10. \<open>m_bConnected\<close> is false in a new client. \<open>Connect\<close> returns what the vendor call
  returns (false when the pointer is NULL, nothing when the call is undefined) and sets
  the flag exactly when it returns true, leaving the client as it was otherwise;
  \<open>Disconnect\<close> likewise clears it exactly when it returns true. \<open>LoadDLL\<close>, \<open>Load\<close>,
  \<open>SetServer\<close>, \<open>SetPort\<close>, \<open>IsConnected\<close> and \<open>Free\<close> leave the flag alone. \<open>Cleanup\<close> calls
  \<open>Disconnect\<close> when the flag is set and not otherwise, and the rest of it leaves the flag
  alone.
\<close>

theorem connection_flag:
  "m_bConnected WMCAClient_new = False \<and>
   fst (Connect E i pw cert m u c w) =
     (case m_pConnect c of
        None \<Rightarrow> Some False
      | Some p \<Rightarrow>
          if mapped p (trace w)
          then Some (answer E p (ncalls p (trace w)) (Connect_args i pw cert m u))
          else None) \<and>
   fst (snd (Connect E i pw cert m u c w)) =
     (if fst (Connect E i pw cert m u c w) = Some True then c\<lparr>m_bConnected := True\<rparr> else c) \<and>
   fst (Disconnect E c w) =
     (case m_pDisconnect c of
        None \<Rightarrow> Some False
      | Some p \<Rightarrow>
          if mapped p (trace w) then Some (answer E p (ncalls p (trace w)) []) else None) \<and>
   fst (snd (Disconnect E c w)) =
     (if fst (Disconnect E c w) = Some True then c\<lparr>m_bConnected := False\<rparr> else c) \<and>
   m_bConnected (fst (snd (LoadDLL E path c w))) = m_bConnected c \<and>
   fst (snd (perform E (True, c, w) DoLoad)) = c \<and>
   fst (snd (perform E (True, c, w) (DoSetServer s))) = c \<and>
   fst (snd (perform E (True, c, w) (DoSetPort n))) = c \<and>
   fst (snd (perform E (True, c, w) DoIsConnected)) = c \<and>
   fst (snd (perform E (True, c, w) DoFree)) = c \<and>
   m_bConnected (fst (snd (release E c w))) = m_bConnected c \<and>
   Cleanup E c w =
     (if m_bConnected c
      then (case Disconnect E c w of
              (None, c', w') \<Rightarrow> (None, c', w')
            | (Some r, c', w') \<Rightarrow> release E c' w')
      else release E c w)"
proof -
  have "fst (snd (Connect E i pw cert m u c w)) =
     (if fst (Connect E i pw cert m u c w) = Some True then c\<lparr>m_bConnected := True\<rparr> else c)"
    by (simp add: Connect_def invoke_eq split: option.splits)
  moreover have "fst (snd (Disconnect E c w)) =
     (if fst (Disconnect E c w) = Some True then c\<lparr>m_bConnected := False\<rparr> else c)"
    by (simp add: Disconnect_def invoke_eq split: option.splits)
  moreover have "fst (Connect E i pw cert m u c w) =
     (case m_pConnect c of
        None \<Rightarrow> Some False
      | Some p \<Rightarrow>
          if mapped p (trace w)
          then Some (answer E p (ncalls p (trace w)) (Connect_args i pw cert m u))
          else None)"
    by (simp add: Connect_eq split: option.splits)
  moreover have "fst (Disconnect E c w) =
     (case m_pDisconnect c of
        None \<Rightarrow> Some False
      | Some p \<Rightarrow>
          if mapped p (trace w) then Some (answer E p (ncalls p (trace w)) []) else None)"
    by (simp add: Disconnect_eq split: option.splits)
  moreover have "fst (snd (perform E (True, c, w) DoLoad)) = c"
    "fst (snd (perform E (True, c, w) (DoSetServer s))) = c"
    "fst (snd (perform E (True, c, w) (DoSetPort n))) = c"
    "fst (snd (perform E (True, c, w) DoIsConnected)) = c"
    "fst (snd (perform E (True, c, w) DoFree)) = c"
    by (simp_all add: split_def Let_def)
  ultimately show ?thesis
    using LoadDLL_flag[of E path c w] release_flag[of E c w] Cleanup_release[of E c w]
    by (simp add: WMCAClient_new_def)
qed

end
